theory Spec2Isabelle
  imports Complex_Main "HOL-Library.Word" "HOL-Library.Sublist"
begin

section \<open>The tractogram-to-dictionary converter of COMMIT\<close>

text \<open>
  This theory embeds \<^verbatim>\<open>src/commit/trk2dictionary/trk2dictionary.pyx\<close>: the function
  \<^verbatim>\<open>run\<close>, which validates its parameters, loads the inputs, calls the native kernel
  and writes the dictionary, and the function \<^verbatim>\<open>convert_old_dictionary\<close>, which
  migrates a dictionary from the split-axis layout to the merged one.

  Conventions of the embedding:
  \<^item> a Python exception is a value of \<open>error\<close>; a procedure returns \<open>Inl e\<close> where the
    source raises \<open>e\<close>;
  \<^item> the file system is part of an explicit state, with a trace of the accesses made;
  \<^item> the libraries the source calls (nibabel, pickle, amico, numpy's linear algebra) and
    the native kernel \<^verbatim>\<open>trk2dictionary_c.cpp\<close> are parameters, collected in \<open>world\<close>;
  \<^item> a Python float is a finite double, kept as a real number and not rounded; infinite
    and NaN arguments are outside the model. Line 168, whose operations leave the
    finite doubles for some finite arguments, is written out over \<open>float64\<close>;
  \<^item> informational \<^verbatim>\<open>print\<close> calls are left out; warnings and the notice of a failed
    conversion are kept as events of the trace;
  \<^item> numpy behaves as numpy 2 does where its versions differ: a Python integer too
    large for an array's integer type raises OverflowError, and a boolean mask of the
    wrong length raises IndexError.
\<close>

subsection \<open>Exceptions, events and the state\<close>

type_synonym byte = "8 word"

datatype error =
    RuntimeError string
  | IOError string
  | FileNotFoundError string
  | TypeError
  | ZeroDivisionError
  | KeyError
  | IndexError
  | ValueError
  | OverflowError
  | LibraryError

datatype event =
    Print string
  | ReadFile string
  | WriteFile string
  | RemoveFile string
  | MakeDirs string
  | LoadHashTable int
  | NativeCall string string

record state =
  files :: "string \<rightharpoonup> byte list"
  dirs :: "string set"
  trace :: "event list"

type_synonym 'a prog = "state \<Rightarrow> (error + 'a) \<times> state"

definition returnP :: "'a \<Rightarrow> 'a prog" where
  "returnP x s = (Inr x, s)"

definition raiseP :: "error \<Rightarrow> 'a prog" where
  "raiseP e s = (Inl e, s)"

definition liftP :: "error + 'a \<Rightarrow> 'a prog" where
  "liftP r s = (r, s)"

definition bindP :: "'a prog \<Rightarrow> ('a \<Rightarrow> 'b prog) \<Rightarrow> 'b prog" where
  "bindP m f s = (case m s of (Inl e, s') \<Rightarrow> (Inl e, s') | (Inr x, s') \<Rightarrow> f x s')"

definition bindE :: "error + 'a \<Rightarrow> ('a \<Rightarrow> error + 'b) \<Rightarrow> error + 'b" where
  "bindE r f = (case r of Inl e \<Rightarrow> Inl e | Inr x \<Rightarrow> f x)"

definition emit :: "event \<Rightarrow> unit prog" where
  "emit e s = (Inr (), s\<lparr>trace := trace s @ [e]\<rparr>)"

subsection \<open>Paths and files\<close>

text \<open>
  \<^verbatim>\<open>os.path.join\<close> of two components and the extension part of \<^verbatim>\<open>os.path.splitext\<close>,
  as \<^verbatim>\<open>posixpath\<close> defines them. A path names a file by its literal characters: the
  model does not normalise paths.
\<close>

definition join :: "string \<Rightarrow> string \<Rightarrow> string" where
  "join a b =
     (if b \<noteq> [] \<and> hd b = CHR ''/'' then b
      else if a = [] \<or> last a = CHR ''/'' then a @ b
      else a @ ''/'' @ b)"

definition basename :: "string \<Rightarrow> string" where
  "basename p = rev (takeWhile (\<lambda>c. c \<noteq> CHR ''/'') (rev p))"

definition splitext_ext :: "string \<Rightarrow> string" where
  "splitext_ext p =
     (let b = basename p;
          e = rev (takeWhile (\<lambda>c. c \<noteq> CHR ''.'') (rev b));
          stem = take (length b - length e - 1) b
      in if CHR ''.'' \<in> set b \<and> filter (\<lambda>c. c \<noteq> CHR ''.'') stem \<noteq> []
         then CHR ''.'' # e else [])"

definition exists_path :: "string \<Rightarrow> bool prog" where
  "exists_path p s = (Inr (p \<in> dom (files s) \<or> p \<in> dirs s), s)"

definition read_file :: "string \<Rightarrow> byte list prog" where
  "read_file p =
     bindP (emit (ReadFile p)) (\<lambda>_ s.
       case files s p of
         None \<Rightarrow> (Inl (FileNotFoundError p), s)
       | Some b \<Rightarrow> (Inr b, s))"

text \<open>A file is created in a directory \<open>d\<close> that must exist.\<close>

definition write_file :: "string \<Rightarrow> string \<Rightarrow> byte list \<Rightarrow> unit prog" where
  "write_file d p b =
     bindP (emit (WriteFile p)) (\<lambda>_ s.
       if d \<in> dirs s then (Inr (), s\<lparr>files := (files s)(p \<mapsto> b)\<rparr>)
       else (Inl (IOError p), s))"

definition remove :: "string \<Rightarrow> unit prog" where
  "remove p =
     bindP (emit (RemoveFile p)) (\<lambda>_ s.
       case files s p of
         None \<Rightarrow> (Inl (FileNotFoundError p), s)
       | Some _ \<Rightarrow> (Inr (), s\<lparr>files := (files s)(p := None)\<rparr>))"

definition makedirs :: "string \<Rightarrow> unit prog" where
  "makedirs p =
     bindP (emit (MakeDirs p)) (\<lambda>_ s.
       if p = [] then (Inl (FileNotFoundError p), s)
       else (Inr (), s\<lparr>dirs := insert p (dirs s)\<rparr>))"

subsection \<open>Data of the libraries\<close>

text \<open>
  A NIfTI image as nibabel presents it: its shape, the \<^verbatim>\<open>pixdim\<close> field of its header,
  its affine, the affine \<^verbatim>\<open>get_best_affine\<close> returns, and its voxels as 32-bit floats in
  C order.
\<close>

type_synonym matrix = "real list list"

record nifti =
  shape :: "nat list"
  pixdim :: "real list"
  affine :: matrix
  best_affine :: matrix
  voxels :: "real list"

text \<open>
  The header of a streamline file is a dictionary; the keys \<^verbatim>\<open>run\<close> reads are fields, and
  a key the file format does not provide is \<open>None\<close> (reading it raises KeyError).
\<close>

record streamlines_header =
  dimensions :: "int list option"
  voxel_sizes :: "real list option"
  nb_streamlines :: "int option"
  nb_scalars_per_point :: "int option"
  nb_properties_per_streamline :: "int option"
  offset_data :: "int option"
  count :: "int option"

type_synonym streamline = "(real \<times> real \<times> real) list"

record tractogram_file =
  hdr :: streamlines_header
  streamlines :: "streamline list"

datatype pyvalue =
    PyNone
  | PyStr string
  | PyBool bool
  | PyInt int
  | PyFloat real
  | PyList "pyvalue list"

datatype shift = Scalar real | Vector "real list"

record run_args =
  filename_tractogram :: "string option"
  path_out :: "string option"
  filename_peaks :: "string option"
  filename_mask :: "string option"
  do_intersect :: bool
  fiber_shift :: shift
  points_to_skip :: int
  vf_THR :: real
  peaks_use_affine :: bool
  flip_peaks :: "bool list"
  min_seg_len :: real
  gen_trk :: bool
  blur_radii :: "real list"
  blur_samples :: "int list"
  blur_sigma :: real
  filename_trk :: "string option"
  TCK_ref_image :: "string option"
  ndirs :: int

text \<open>
  The values an operation on doubles can have: a finite double, an infinity or NaN. The
  weights of line 168 have this type.
\<close>

datatype float64 = Finite real | PInf | MInf | NaN

text \<open>The arguments of the native function, in the order of its C declaration (lines 17-23).\<close>

record native_args =
  c_filename_tractogram :: string
  c_data_offset :: int
  c_Nx :: int
  c_Ny :: int
  c_Nz :: int
  c_Px :: real
  c_Py :: real
  c_Pz :: real
  c_n_count :: int
  c_n_scalars :: int
  c_n_properties :: int
  c_fiber_shiftX :: real
  c_fiber_shiftY :: real
  c_fiber_shiftZ :: real
  c_points_to_skip :: int
  c_min_seg_len :: real
  c_PEAKS :: "real list option"
  c_Np :: int
  c_vf_THR :: real
  c_ECix :: int
  c_ECiy :: int
  c_ECiz :: int
  c_MASK :: "real list option"
  c_TDI :: "real list"
  c_path_out :: string
  c_c :: int
  c_AFFINE :: "matrix option"
  c_nBlurRadii :: nat
  c_blurSigma :: real
  c_BlurRadii :: "real list"
  c_BlurSamples :: "int list"
  c_BlurWeights :: "float64 list"
  c_ArrayInvM :: "real list option"
  c_ndirs :: int
  c_HashTable :: "int list"

text \<open>
  The collaborators. A loader returns \<open>None\<close> where the library raises. The native
  kernel reads and writes the file system and fills the track-density image it is
  handed; it returns its status, the density image and the file system it leaves.
\<close>

record world =
  load_precomputed_hash_table :: "int \<Rightarrow> int list option"
  streamlines_load :: "string \<Rightarrow> byte list \<Rightarrow> tractogram_file option"
  streamlines_save :: "tractogram_file \<Rightarrow> string \<Rightarrow> byte list"
  nibabel_load :: "string \<Rightarrow> byte list \<Rightarrow> nifti option"
  nibabel_save :: "real list \<times> nat list \<times> matrix \<Rightarrow> string \<Rightarrow> byte list"
  pickle_dump :: "(string \<times> pyvalue) list \<Rightarrow> byte list"
  tck_inverse_affine :: "real \<times> real \<times> real \<Rightarrow> matrix \<Rightarrow> real list option"
  trk2dictionary ::
    "native_args \<Rightarrow> (string \<rightharpoonup> byte list) \<times> string set
       \<Rightarrow> int \<times> real list \<times> (string \<rightharpoonup> byte list) \<times> string set"

definition load_image :: "world \<Rightarrow> string \<Rightarrow> nifti prog" where
  "load_image w p =
     bindP (read_file p) (\<lambda>b.
       case nibabel_load w p b of
         None \<Rightarrow> raiseP LibraryError
       | Some img \<Rightarrow> returnP img)"

text \<open>
  Indexing a Python sequence with a non-negative constant. An index past the end is an
  IndexError of Python and of numpy. The source is compiled with
  \<^verbatim>\<open>boundscheck=False\<close> (line 2), which leaves a read past the end of a tuple or a list
  (\<^verbatim>\<open>shape\<close>, \<^verbatim>\<open>flip_peaks\<close>) unchecked and its outcome undefined; the theorems
  about these reads are stated for sequences of the length the source reads.
\<close>

definition item :: "'a list \<Rightarrow> nat \<Rightarrow> error + 'a" where
  "item xs i = (if i < length xs then Inr (xs ! i) else Inl IndexError)"

definition key :: "'a option \<Rightarrow> error + 'a" where
  "key v = (case v of None \<Rightarrow> Inl KeyError | Some x \<Rightarrow> Inr x)"

subsection \<open>numpy arrays of unsigned integers\<close>

text \<open>
  \<^verbatim>\<open>np.fromfile\<close> reads as many whole items as the file holds, \<^verbatim>\<open>tofile\<close> writes the
  items one after the other; items are little-endian. Arithmetic on an array of
  \<open>w\<close>-bit unsigned integers wraps modulo \<open>2 ^ w\<close>. A Python integer that multiplies
  such an array must fit its type. Two arrays added element by element must have the
  same length, unless one of them has a single element.
\<close>

definition le16 :: "byte \<Rightarrow> byte \<Rightarrow> 16 word" where
  "le16 lo hi = ucast lo + 256 * ucast hi"

fun decode_u16 :: "byte list \<Rightarrow> 16 word list" where
  "decode_u16 (lo # hi # bs) = le16 lo hi # decode_u16 bs"
| "decode_u16 _ = []"

definition bytes_u16 :: "16 word \<Rightarrow> byte list" where
  "bytes_u16 v = [ucast v, ucast (drop_bit 8 v)]"

definition bytes_u32 :: "32 word \<Rightarrow> byte list" where
  "bytes_u32 v = [ucast v, ucast (drop_bit 8 v), ucast (drop_bit 16 v), ucast (drop_bit 24 v)]"

definition fromfile_u8 :: "string \<Rightarrow> byte list prog" where
  "fromfile_u8 p = read_file p"

definition fromfile_u16 :: "string \<Rightarrow> 16 word list prog" where
  "fromfile_u16 p = bindP (read_file p) (\<lambda>b. returnP (decode_u16 b))"

definition astype :: "'a::len word list \<Rightarrow> 'b::len word list" where
  "astype xs = map ucast xs"

definition scalar_times :: "nat \<Rightarrow> 'a::len word list \<Rightarrow> error + 'a word list" where
  "scalar_times n xs =
     (if n < 2 ^ LENGTH('a) then Inr (map (\<lambda>x. of_nat n * x) xs) else Inl OverflowError)"

definition array_plus :: "'a::len word list \<Rightarrow> 'a word list \<Rightarrow> error + 'a word list" where
  "array_plus xs ys =
     (if length xs = length ys then Inr (map2 (+) xs ys)
      else if length xs = 1 then Inr (map (\<lambda>y. hd xs + y) ys)
      else if length ys = 1 then Inr (map (\<lambda>x. x + hd ys) xs)
      else Inl ValueError)"

text \<open>\<^verbatim>\<open>x + Nx * ( y + Ny * z )\<close> on arrays (lines 429 and 438).\<close>

definition merge_v ::
  "nat \<Rightarrow> nat \<Rightarrow> 32 word list \<Rightarrow> 32 word list \<Rightarrow> 32 word list \<Rightarrow> error + 32 word list" where
  "merge_v Nx Ny x y z =
     bindE (scalar_times Ny z) (\<lambda>t1.
     bindE (array_plus y t1) (\<lambda>t2.
     bindE (scalar_times Nx t2) (\<lambda>t3.
     array_plus x t3)))"

text \<open>\<^verbatim>\<open>y + 181 * x\<close> on arrays (lines 446 and 453).\<close>

definition merge_o :: "16 word list \<Rightarrow> 16 word list \<Rightarrow> error + 16 word list" where
  "merge_o x y = bindE (scalar_times 181 x) (\<lambda>t. array_plus y t)"

definition tofile_u32 :: "string \<Rightarrow> string \<Rightarrow> 32 word list \<Rightarrow> unit prog" where
  "tofile_u32 d p v = write_file d p (concat (map bytes_u32 v))"

definition tofile_u16 :: "string \<Rightarrow> string \<Rightarrow> 16 word list \<Rightarrow> unit prog" where
  "tofile_u16 d p v = write_file d p (concat (map bytes_u16 v))"

subsection \<open>Migration of the old layout: \<^verbatim>\<open>convert_old_dictionary\<close> (lines 411-456)\<close>

text \<open>\<^verbatim>\<open>Nx, Ny, Nz = niiTDI.shape[:3]\<close>: unpacking fails on fewer than three extents.\<close>

definition shape3 :: "nat list \<Rightarrow> error + nat \<times> nat \<times> nat" where
  "shape3 sh = (case take 3 sh of [a, b, c] \<Rightarrow> Inr (a, b, c) | _ \<Rightarrow> Inl ValueError)"

text \<open>The four blocks of the function: lines 426-433, 435-442, 444-449 and 451-456.\<close>

definition convert_IC_v :: "string \<Rightarrow> nat \<Rightarrow> nat \<Rightarrow> unit prog" where
  "convert_IC_v path Nx Ny =
     bindP (fromfile_u16 (join path ''dictionary_IC_vx.dict'')) (\<lambda>x.
     bindP (fromfile_u16 (join path ''dictionary_IC_vy.dict'')) (\<lambda>y.
     bindP (fromfile_u16 (join path ''dictionary_IC_vz.dict'')) (\<lambda>z.
     bindP (liftP (merge_v Nx Ny (astype x) (astype y) (astype z))) (\<lambda>v.
     bindP (tofile_u32 path (join path ''dictionary_IC_v.dict'') v) (\<lambda>_.
     bindP (remove (join path ''dictionary_IC_vx.dict'')) (\<lambda>_.
     bindP (remove (join path ''dictionary_IC_vy.dict'')) (\<lambda>_.
     remove (join path ''dictionary_IC_vz.dict''))))))))"

definition convert_EC_v :: "string \<Rightarrow> nat \<Rightarrow> nat \<Rightarrow> unit prog" where
  "convert_EC_v path Nx Ny =
     bindP (fromfile_u8 (join path ''dictionary_EC_vx.dict'')) (\<lambda>x.
     bindP (fromfile_u8 (join path ''dictionary_EC_vy.dict'')) (\<lambda>y.
     bindP (fromfile_u8 (join path ''dictionary_EC_vz.dict'')) (\<lambda>z.
     bindP (liftP (merge_v Nx Ny (astype x) (astype y) (astype z))) (\<lambda>v.
     bindP (tofile_u32 path (join path ''dictionary_EC_v.dict'') v) (\<lambda>_.
     bindP (remove (join path ''dictionary_EC_vx.dict'')) (\<lambda>_.
     bindP (remove (join path ''dictionary_EC_vy.dict'')) (\<lambda>_.
     remove (join path ''dictionary_EC_vz.dict''))))))))"

definition convert_IC_o :: "string \<Rightarrow> unit prog" where
  "convert_IC_o path =
     bindP (fromfile_u8 (join path ''dictionary_IC_ox.dict'')) (\<lambda>x.
     bindP (fromfile_u8 (join path ''dictionary_IC_oy.dict'')) (\<lambda>y.
     bindP (liftP (merge_o (astype x) (astype y))) (\<lambda>v.
     bindP (tofile_u16 path (join path ''dictionary_IC_o.dict'') v) (\<lambda>_.
     bindP (remove (join path ''dictionary_IC_ox.dict'')) (\<lambda>_.
     remove (join path ''dictionary_IC_oy.dict''))))))"

definition convert_EC_o :: "string \<Rightarrow> unit prog" where
  "convert_EC_o path =
     bindP (fromfile_u8 (join path ''dictionary_EC_ox.dict'')) (\<lambda>x.
     bindP (fromfile_u8 (join path ''dictionary_EC_oy.dict'')) (\<lambda>y.
     bindP (liftP (merge_o (astype x) (astype y))) (\<lambda>v.
     bindP (tofile_u16 path (join path ''dictionary_EC_o.dict'') v) (\<lambda>_.
     bindP (remove (join path ''dictionary_EC_ox.dict'')) (\<lambda>_.
     remove (join path ''dictionary_EC_oy.dict''))))))"

definition convert_old_dictionary :: "world \<Rightarrow> string \<Rightarrow> unit prog" where
  "convert_old_dictionary w path =
     bindP (exists_path (join path ''dictionary_IC_vx.dict'')) (\<lambda>found.
     if \<not> found
     then raiseP (RuntimeError ''Folder does not contain dictionary files in the old format'')
     else
     bindP (load_image w (join path ''dictionary_tdi.nii.gz'')) (\<lambda>niiTDI.
     bindP (liftP (shape3 (shape niiTDI))) (\<lambda>(Nx, Ny, Nz).
     bindP (convert_IC_v path Nx Ny) (\<lambda>_.
     bindP (convert_EC_v path Nx Ny) (\<lambda>_.
     bindP (convert_IC_o path) (\<lambda>_.
     convert_EC_o path))))))"

subsection \<open>Validation of the parameters of \<^verbatim>\<open>run\<close> (lines 101-194)\<close>

text \<open>
  Modelled from the spec: \<^verbatim>\<open>amico.lut.is_valid\<close> belongs to the AMICO library and is
  absent from the sources. The supported values are those of section 4.1 of the
  specification, which the error message of line 122 lists one by one.
\<close>

definition is_valid :: "int \<Rightarrow> bool" where
  "is_valid n =
     (n \<in> set [500, 1000, 1500, 2000, 2500, 3000, 3500, 4000, 4500, 5000, 5500, 6000,
                6500, 7000, 7500, 8000, 8500, 9000, 9500, 10000, 32761])"

text \<open>The metadata record (lines 102-118), a dictionary in insertion order.\<close>

definition py_str :: "string option \<Rightarrow> pyvalue" where
  "py_str v = (case v of None \<Rightarrow> PyNone | Some x \<Rightarrow> PyStr x)"

definition py_shift :: "shift \<Rightarrow> pyvalue" where
  "py_shift v = (case v of Scalar x \<Rightarrow> PyFloat x | Vector xs \<Rightarrow> PyList (map PyFloat xs))"

definition dictionary_info :: "run_args \<Rightarrow> (string \<times> pyvalue) list" where
  "dictionary_info a =
     [(''filename_trk'', py_str (filename_trk a)),
      (''path_out'', py_str (path_out a)),
      (''filename_peaks'', py_str (filename_peaks a)),
      (''filename_mask'', py_str (filename_mask a)),
      (''do_intersect'', PyBool (do_intersect a)),
      (''fiber_shift'', py_shift (fiber_shift a)),
      (''points_to_skip'', PyInt (points_to_skip a)),
      (''vf_THR'', PyFloat (vf_THR a)),
      (''peaks_use_affine'', PyBool (peaks_use_affine a)),
      (''flip_peaks'', PyList (map PyBool (flip_peaks a))),
      (''min_seg_len'', PyFloat (min_seg_len a)),
      (''gen_trk'', PyBool (gen_trk a)),
      (''blur_radii'', PyList (map PyFloat (blur_radii a))),
      (''blur_samples'', PyList (map PyInt (blur_samples a))),
      (''blur_sigma'', PyFloat (blur_sigma a)),
      (''ndirs'', PyInt (ndirs a))]"

text \<open>Lines 120-122. Error messages are cut after their first sentence.\<close>

definition check_ndirs :: "int \<Rightarrow> error + unit" where
  "check_ndirs n =
     (if \<not> is_valid n then Inl (RuntimeError ''Unsupported value for ndirs.'') else Inr ())"

text \<open>Lines 124-134.\<close>

definition split_fiber_shift :: "shift \<Rightarrow> error + real \<times> real \<times> real" where
  "split_fiber_shift v =
     (case v of
        Scalar x \<Rightarrow> Inr (x, x, x)
      | Vector xs \<Rightarrow>
          if length xs = 3 then Inr (xs ! 0, xs ! 1, xs ! 2)
          else Inl (RuntimeError ''fiber_shift must be a scalar or a vector with 3 elements''))"

text \<open>
  Line 168 is \<^verbatim>\<open>np.exp( -blurRadii[i]**2 / (2.0*blur_sigma**2) )\<close>. The radius is a C
  double and its square is C's: it overflows to infinity, from \<open>2 ^ 1024\<close> on.
  \<^verbatim>\<open>blur_sigma\<close> is a Python float: its power raises OverflowError where the square
  overflows, and gives 0.0 where the square rounds to zero, up to \<open>2 ^ -1075\<close>, half
  the least positive double. Python's product overflows to infinity and Python's
  division raises on a zero divisor. A result inside the finite doubles is kept exact.
  So is the quotient of two finite doubles: where it overflows, to minus infinity here,
  its exponential is 0.0, the double nearest to the exponential of the exact quotient.
\<close>

definition c_square :: "real \<Rightarrow> float64" where
  "c_square x = (if 2 ^ 1024 \<le> x ^ 2 then PInf else Finite (x ^ 2))"

definition negate :: "float64 \<Rightarrow> float64" where
  "negate x = (case x of Finite v \<Rightarrow> Finite (- v) | PInf \<Rightarrow> MInf | MInf \<Rightarrow> PInf | NaN \<Rightarrow> NaN)"

definition py_square :: "real \<Rightarrow> error + real" where
  "py_square x =
     (if 2 ^ 1024 \<le> x ^ 2 then Inl OverflowError
      else if x ^ 2 \<le> 1 / 2 ^ 1075 then Inr 0
      else Inr (x ^ 2))"

definition py_twice :: "real \<Rightarrow> float64" where
  "py_twice x =
     (if 2 ^ 1024 \<le> 2 * x then PInf else if 2 * x \<le> - (2 ^ 1024) then MInf
      else Finite (2 * x))"

definition py_divide :: "float64 \<Rightarrow> float64 \<Rightarrow> error + float64" where
  "py_divide n d =
     (case d of
        Finite y \<Rightarrow>
          if y = 0 then Inl ZeroDivisionError
          else Inr (case n of
                      Finite x \<Rightarrow> Finite (x / y)
                    | PInf \<Rightarrow> if 0 < y then PInf else MInf
                    | MInf \<Rightarrow> if 0 < y then MInf else PInf
                    | NaN \<Rightarrow> NaN)
      | NaN \<Rightarrow> Inr NaN
      | _ \<Rightarrow> Inr (case n of Finite x \<Rightarrow> Finite 0 | _ \<Rightarrow> NaN))"

definition np_exp :: "float64 \<Rightarrow> float64" where
  "np_exp x = (case x of Finite v \<Rightarrow> Finite (exp v) | PInf \<Rightarrow> PInf | MInf \<Rightarrow> Finite 0 | NaN \<Rightarrow> NaN)"

text \<open>
  Lines 157-168. The radius 0 and the sample count 1 of the original segment are put in
  front of the lists; the samples become 32-bit integers; the loop of lines 167-168
  computes one weight per radius.
\<close>

record blur =
  nBlurRadii :: nat
  blurRadii :: "real list"
  blurSamples :: "int list"
  blurWeights :: "float64 list"

definition int32_array :: "int list \<Rightarrow> error + int list" where
  "int32_array xs =
     (if list_all (\<lambda>x. - (2 ^ 31) \<le> x \<and> x < 2 ^ 31) xs then Inr xs else Inl OverflowError)"

definition gaussian_weight :: "real \<Rightarrow> real \<Rightarrow> error + float64" where
  "gaussian_weight sigma r =
     bindE (py_square sigma) (\<lambda>s.
     bindE (py_divide (negate (c_square r)) (py_twice s)) (\<lambda>q.
     Inr (np_exp q)))"

fun blur_weights :: "real \<Rightarrow> real list \<Rightarrow> error + float64 list" where
  "blur_weights sigma [] = Inr []"
| "blur_weights sigma (r # rs) =
     bindE (gaussian_weight sigma r) (\<lambda>x.
     bindE (blur_weights sigma rs) (\<lambda>xs. Inr (x # xs)))"

definition blur_params :: "real list \<Rightarrow> int list \<Rightarrow> real \<Rightarrow> error + blur" where
  "blur_params radii samples sigma =
     (if length radii \<noteq> length samples
      then Inl (RuntimeError ''number of radii and samples must match'')
      else
        bindE (int32_array (1 # samples)) (\<lambda>bs.
        bindE (blur_weights sigma (0 # radii)) (\<lambda>bw.
        Inr \<lparr>nBlurRadii = length radii + 1, blurRadii = 0 # radii,
              blurSamples = bs, blurWeights = bw\<rparr>)))"

text \<open>Lines 192-194.\<close>

definition check_min_seg_len :: "real \<Rightarrow> error + unit" where
  "check_min_seg_len v = (if v < 0 then Inl (RuntimeError ''min_seg_len must be >= 0'') else Inr ())"

definition check_parameters :: "run_args \<Rightarrow> error + (real \<times> real \<times> real) \<times> blur" where
  "check_parameters a =
     bindE (check_ndirs (ndirs a)) (\<lambda>_.
     bindE (split_fiber_shift (fiber_shift a)) (\<lambda>shifts.
     bindE (blur_params (blur_radii a) (blur_samples a) (blur_sigma a)) (\<lambda>b.
     bindE (check_min_seg_len (min_seg_len a)) (\<lambda>_.
     Inr (shifts, b)))))"

subsection \<open>Loading the tractogram and its geometry (lines 199-296)\<close>

definition load_hash_table :: "world \<Rightarrow> int \<Rightarrow> int list prog" where
  "load_hash_table w n =
     bindP (emit (LoadHashTable n)) (\<lambda>_.
       case load_precomputed_hash_table w n of
         None \<Rightarrow> raiseP LibraryError
       | Some h \<Rightarrow> returnP h)"

text \<open>Lines 205-216: the four tests on the output path and the two file-name parameters.\<close>

definition tractogram_name :: "run_args \<Rightarrow> string prog" where
  "tractogram_name a =
     (if path_out a = None then raiseP (RuntimeError ''Path out not defined'')
      else
        case (filename_trk a, filename_tractogram a) of
          (None, None) \<Rightarrow> raiseP (RuntimeError ''Tractogram file not defined'')
        | (Some k, Some t) \<Rightarrow>
            bindP (emit (Print ''[WARNING] filename_tractogram will be used, filename_trk will not be considered''))
              (\<lambda>_. returnP t)
        | (Some k, None) \<Rightarrow>
            bindP (emit (Print ''[WARNING] filename_trk parameter is deprecated, in the future use filename_tractogram''))
              (\<lambda>_. returnP k)
        | (None, Some t) \<Rightarrow> returnP t)"

text \<open>Lines 218-221.\<close>

definition check_extension :: "string \<Rightarrow> error + string" where
  "check_extension fn =
     (let extension = splitext_ext fn
      in if extension \<noteq> ''.trk'' \<and> extension \<noteq> ''.tck''
         then Inl (IOError ''Invalid input file. Please enter tractogram file .trk or .tck'')
         else Inr extension)"

text \<open>Lines 222-225: whatever the loader raises becomes the same IOError.\<close>

definition load_header :: "world \<Rightarrow> string \<Rightarrow> streamlines_header prog" where
  "load_header w fn =
     bindP (emit (ReadFile fn)) (\<lambda>_ s.
       case files s fn of
         None \<Rightarrow> (Inl (IOError ''Tractogram file not found''), s)
       | Some b \<Rightarrow>
           (case streamlines_load w fn b of
              None \<Rightarrow> (Inl (IOError ''Tractogram file not found''), s)
            | Some t \<Rightarrow> (Inr (hdr t), s)))"

record geometry =
  g_Nx :: int
  g_Ny :: int
  g_Nz :: int
  g_Px :: real
  g_Py :: real
  g_Pz :: real
  g_data_offset :: int
  g_n_count :: int
  g_n_scalars :: int
  g_n_properties :: int

text \<open>Lines 227-238: the geometry of a .trk file is in its header.\<close>

definition trk_geometry :: "streamlines_header \<Rightarrow> error + geometry" where
  "trk_geometry h =
     bindE (key (dimensions h)) (\<lambda>d.
     bindE (item d 0) (\<lambda>Nx.
     bindE (item d 1) (\<lambda>Ny.
     bindE (item d 2) (\<lambda>Nz.
     bindE (key (voxel_sizes h)) (\<lambda>v.
     bindE (item v 0) (\<lambda>Px.
     bindE (item v 1) (\<lambda>Py.
     bindE (item v 2) (\<lambda>Pz.
     bindE (key (nb_streamlines h)) (\<lambda>n_count.
     bindE (key (nb_scalars_per_point h)) (\<lambda>n_scalars.
     bindE (key (nb_properties_per_streamline h)) (\<lambda>n_properties.
     Inr \<lparr>g_Nx = Nx, g_Ny = Ny, g_Nz = Nz, g_Px = Px, g_Py = Py, g_Pz = Pz,
           g_data_offset = 1000, g_n_count = n_count, g_n_scalars = n_scalars,
           g_n_properties = n_properties\<rparr>)))))))))))"

text \<open>Lines 240-274: the geometry of a .tck file is that of a reference image.\<close>

definition tck_reference :: "run_args \<Rightarrow> error + string" where
  "tck_reference a =
     (case TCK_ref_image a of
        Some r \<Rightarrow> Inr r
      | None \<Rightarrow>
          (case filename_peaks a of
             Some p \<Rightarrow> Inr p
           | None \<Rightarrow>
               (case filename_mask a of
                  Some m \<Rightarrow> Inr m
                | None \<Rightarrow>
                    Inl (RuntimeError ''TCK files do not contain information about the geometry.''))))"

definition tck_geometry :: "streamlines_header \<Rightarrow> nifti \<Rightarrow> error + geometry" where
  "tck_geometry h nii_image =
     bindE (item (shape nii_image) 0) (\<lambda>Nx.
     bindE (item (shape nii_image) 1) (\<lambda>Ny.
     bindE (item (shape nii_image) 2) (\<lambda>Nz.
     bindE (item (pixdim nii_image) 1) (\<lambda>Px.
     bindE (item (pixdim nii_image) 2) (\<lambda>Py.
     bindE (item (pixdim nii_image) 3) (\<lambda>Pz.
     bindE (key (offset_data h)) (\<lambda>data_offset.
     bindE (key (count h)) (\<lambda>n_count.
     Inr \<lparr>g_Nx = int Nx, g_Ny = int Ny, g_Nz = int Nz, g_Px = Px, g_Py = Py, g_Pz = Pz,
           g_data_offset = data_offset, g_n_count = n_count, g_n_scalars = 0,
           g_n_properties = 0\<rparr>))))))))"

text \<open>Lines 279-280, as written: the second test reads \<^verbatim>\<open>Nz\<close>, like the third.\<close>

definition check_dims :: "int \<Rightarrow> int \<Rightarrow> int \<Rightarrow> error + unit" where
  "check_dims Nx Ny Nz =
     (if Nx \<ge> 2 ^ 16 \<or> Nz \<ge> 2 ^ 16 \<or> Nz \<ge> 2 ^ 16
      then Inl (RuntimeError ''The max dim size is 2^16 voxels'')
      else Inr ())"

text \<open>
  Lines 227-296 for either extension. The inverse of the affine is computed for a .tck
  file only (lines 283-296); the computation is numpy's.
\<close>

definition read_geometry ::
  "world \<Rightarrow> run_args \<Rightarrow> string \<Rightarrow> streamlines_header \<Rightarrow> (geometry \<times> real list option) prog" where
  "read_geometry w a extension h =
     (if extension = ''.trk'' then
        bindP (liftP (trk_geometry h)) (\<lambda>g.
        bindP (liftP (check_dims (g_Nx g) (g_Ny g) (g_Nz g))) (\<lambda>_.
        returnP (g, None)))
      else
        bindP (liftP (tck_reference a)) (\<lambda>ref.
        bindP (load_image w ref) (\<lambda>nii_image.
        bindP (liftP (tck_geometry h nii_image)) (\<lambda>g.
        bindP (liftP (check_dims (g_Nx g) (g_Ny g) (g_Nz g))) (\<lambda>_.
        case tck_inverse_affine w (g_Px g, g_Py g, g_Pz g) (best_affine nii_image) of
          None \<Rightarrow> raiseP LibraryError
        | Some invM \<Rightarrow> returnP (g, Some invM))))))"

definition load_tractogram ::
  "world \<Rightarrow> run_args \<Rightarrow> (int list \<times> string \<times> string \<times> geometry \<times> real list option) prog" where
  "load_tractogram w a =
     bindP (load_hash_table w (ndirs a)) (\<lambda>htable.
     bindP (tractogram_name a) (\<lambda>fn.
     bindP (liftP (check_extension fn)) (\<lambda>extension.
     bindP (load_header w fn) (\<lambda>h.
     bindP (read_geometry w a extension h) (\<lambda>(g, invM).
     returnP (htable, fn, extension, g, invM))))))"

subsection \<open>Loading the mask and the peaks (lines 298-354)\<close>

text \<open>
  The test of lines 307-308 and 333-334 that an image has the geometry of the tractogram;
  a difference is a warning.
\<close>

definition same_geometry :: "geometry \<Rightarrow> nat \<Rightarrow> nat \<Rightarrow> nat \<Rightarrow> real \<Rightarrow> real \<Rightarrow> real \<Rightarrow> bool" where
  "same_geometry g s0 s1 s2 p1 p2 p3 =
     (g_Nx g = int s0 \<and> g_Ny g = int s1 \<and> g_Nz g = int s2 \<and>
      \<bar>g_Px g - p1\<bar> \<le> 1 / 1000 \<and> \<bar>g_Py g - p2\<bar> \<le> 1 / 1000 \<and> \<bar>g_Pz g - p3\<bar> \<le> 1 / 1000)"

definition geometry_warning :: "bool \<Rightarrow> unit prog" where
  "geometry_warning same =
     (if same then returnP ()
      else emit (Print ''[WARNING] dataset does not have the same geometry as the tractogram''))"

text \<open>
  Lines 298-314. The voxels are assigned to a three-dimensional typed view (line 310),
  which refuses an array of another dimension.
\<close>

definition load_mask :: "world \<Rightarrow> run_args \<Rightarrow> geometry \<Rightarrow> nifti option prog" where
  "load_mask w a g =
     (case filename_mask a of
        None \<Rightarrow> returnP None
      | Some fm \<Rightarrow>
          bindP (load_image w fm) (\<lambda>niiMASK.
          bindP (liftP (item (shape niiMASK) 0)) (\<lambda>s0.
          bindP (liftP (item (shape niiMASK) 1)) (\<lambda>s1.
          bindP (liftP (item (shape niiMASK) 2)) (\<lambda>s2.
          bindP (liftP (item (pixdim niiMASK) 1)) (\<lambda>p1.
          bindP (liftP (item (pixdim niiMASK) 2)) (\<lambda>p2.
          bindP (liftP (item (pixdim niiMASK) 3)) (\<lambda>p3.
          bindP (geometry_warning (same_geometry g s0 s1 s2 p1 p2 p3)) (\<lambda>_.
          if length (shape niiMASK) = 3 then returnP (Some niiMASK)
          else raiseP ValueError)))))))))"

text \<open>Line 320: the track-density image, all zeros.\<close>

definition zeros :: "geometry \<Rightarrow> error + real list" where
  "zeros g =
     (if g_Nx g < 0 \<or> g_Ny g < 0 \<or> g_Nz g < 0 then Inl ValueError
      else Inr (replicate (nat (g_Nx g * g_Ny g * g_Nz g)) 0))"

record peaks =
  pk_nii :: nifti
  pk_Np :: int
  pk_affine :: matrix

definition eye3 :: matrix where
  "eye3 = [[1, 0, 0], [0, 1, 0], [0, 0, 1]]"

text \<open>
  Lines 324-354. The two tests of lines 336-339 are made only when a peaks file is
  given, after that file has been loaded.
\<close>

definition load_peaks :: "world \<Rightarrow> run_args \<Rightarrow> geometry \<Rightarrow> peaks option prog" where
  "load_peaks w a g =
     (case filename_peaks a of
        None \<Rightarrow> returnP None
      | Some fp \<Rightarrow>
          bindP (load_image w fp) (\<lambda>nii.
          bindP (liftP (item (shape nii) 0)) (\<lambda>s0.
          bindP (liftP (item (shape nii) 1)) (\<lambda>s1.
          bindP (liftP (item (shape nii) 2)) (\<lambda>s2.
          bindP (liftP (item (shape nii) 3)) (\<lambda>s3.
          bindP (liftP (item (pixdim nii) 1)) (\<lambda>p1.
          bindP (liftP (item (pixdim nii) 2)) (\<lambda>p2.
          bindP (liftP (item (pixdim nii) 3)) (\<lambda>p3.
          bindP (liftP (item (flip_peaks a) 0)) (\<lambda>_.
          bindP (liftP (item (flip_peaks a) 1)) (\<lambda>_.
          bindP (liftP (item (flip_peaks a) 2)) (\<lambda>_.
          bindP (geometry_warning (same_geometry g s0 s1 s2 p1 p2 p3)) (\<lambda>_.
          if s3 mod 3 \<noteq> 0 then raiseP (RuntimeError ''PEAKS dataset must have 3*k volumes'')
          else if vf_THR a < 0 \<or> vf_THR a > 1
          then raiseP (RuntimeError ''vf_THR must be between 0 and 1'')
          else if length (shape nii) \<noteq> 4 then raiseP ValueError
          else returnP (Some \<lparr>pk_nii = nii, pk_Np = int (s3 div 3),
                 pk_affine =
                   (if peaks_use_affine a
                    then transpose (map (take 3) (take 3 (affine nii)))
                    else eye3)\<rparr>))))))))))))))"

subsection \<open>Writing the dictionary (lines 356-408)\<close>

text \<open>Lines 356-363: the output directory and the metadata record.\<close>

definition write_info :: "world \<Rightarrow> run_args \<Rightarrow> string \<Rightarrow> string \<Rightarrow> unit prog" where
  "write_info w a po filename =
     bindP (exists_path po) (\<lambda>found.
     bindP (if \<not> found then makedirs po else returnP ()) (\<lambda>_.
     write_file po filename (pickle_dump w (dictionary_info a))))"

text \<open>
  Lines 365-371: the arguments of the call. An integer argument must fit a C
  \<^verbatim>\<open>int\<close>; the three signs index \<^verbatim>\<open>flip_peaks\<close>.
\<close>

definition c_int :: "int \<Rightarrow> error + int" where
  "c_int v = (if - (2 ^ 31) \<le> v \<and> v < 2 ^ 31 then Inr v else Inl OverflowError)"

definition flip_sign :: "bool list \<Rightarrow> nat \<Rightarrow> error + int" where
  "flip_sign fl i = bindE (item fl i) (\<lambda>b. Inr (if b then - 1 else 1))"

definition native_arguments ::
  "run_args \<Rightarrow> string \<Rightarrow> string \<Rightarrow> geometry \<Rightarrow> real \<times> real \<times> real \<Rightarrow> blur \<Rightarrow> int list
     \<Rightarrow> real list option \<Rightarrow> nifti option \<Rightarrow> peaks option \<Rightarrow> real list \<Rightarrow> error + native_args" where
  "native_arguments a po fn g shifts b htable invM msk pk tdi =
     bindE (c_int (g_data_offset g)) (\<lambda>data_offset.
     bindE (c_int (g_Nx g)) (\<lambda>Nx.
     bindE (c_int (g_Ny g)) (\<lambda>Ny.
     bindE (c_int (g_Nz g)) (\<lambda>Nz.
     bindE (c_int (g_n_count g)) (\<lambda>n_count.
     bindE (c_int (g_n_scalars g)) (\<lambda>n_scalars.
     bindE (c_int (g_n_properties g)) (\<lambda>n_properties.
     bindE (c_int (points_to_skip a)) (\<lambda>skip.
     bindE (c_int (case pk of None \<Rightarrow> 0 | Some p \<Rightarrow> pk_Np p)) (\<lambda>np.
     bindE (flip_sign (flip_peaks a) 0) (\<lambda>ix.
     bindE (flip_sign (flip_peaks a) 1) (\<lambda>iy.
     bindE (flip_sign (flip_peaks a) 2) (\<lambda>iz.
     Inr \<lparr>c_filename_tractogram = fn, c_data_offset = data_offset,
           c_Nx = Nx, c_Ny = Ny, c_Nz = Nz,
           c_Px = g_Px g, c_Py = g_Py g, c_Pz = g_Pz g,
           c_n_count = n_count, c_n_scalars = n_scalars, c_n_properties = n_properties,
           c_fiber_shiftX = fst shifts, c_fiber_shiftY = fst (snd shifts),
           c_fiber_shiftZ = snd (snd shifts),
           c_points_to_skip = skip, c_min_seg_len = min_seg_len a,
           c_PEAKS = map_option (\<lambda>p. voxels (pk_nii p)) pk, c_Np = np,
           c_vf_THR = vf_THR a, c_ECix = ix, c_ECiy = iy, c_ECiz = iz,
           c_MASK = map_option voxels msk, c_TDI = tdi, c_path_out = po,
           c_c = (if do_intersect a then 1 else 0),
           c_AFFINE = map_option pk_affine pk,
           c_nBlurRadii = nBlurRadii b, c_blurSigma = blur_sigma a,
           c_BlurRadii = blurRadii b, c_BlurSamples = blurSamples b,
           c_BlurWeights = blurWeights b, c_ArrayInvM = invM,
           c_ndirs = ndirs a, c_HashTable = htable\<rparr>))))))))))))"

text \<open>The call: the native kernel replaces the file system and fills the density image.\<close>

definition call_native :: "world \<Rightarrow> native_args \<Rightarrow> (int \<times> real list) prog" where
  "call_native w args =
     bindP (emit (NativeCall (c_filename_tractogram args) (c_path_out args))) (\<lambda>_ s.
       case trk2dictionary w args (files s, dirs s) of
         (ret, tdi, fs, ds) \<Rightarrow> (Inr (ret, tdi), s\<lparr>files := fs, dirs := ds\<rparr>))"

text \<open>
  Lines 378-390. \<^verbatim>\<open>np.fromfile\<close> with \<^verbatim>\<open>dtype=np.bool_\<close> reads one flag per byte; the
  flags index the streamlines as a boolean mask.
\<close>

definition boolean_index :: "'a list \<Rightarrow> bool list \<Rightarrow> error + 'a list" where
  "boolean_index xs m =
     (if length m \<noteq> length xs then Inl IndexError
      else Inr (map fst (filter snd (zip xs m))))"

definition generate_trk :: "world \<Rightarrow> string \<Rightarrow> string \<Rightarrow> string \<Rightarrow> unit prog" where
  "generate_trk w po fn extension =
     bindP (read_file fn) (\<lambda>b.
     case streamlines_load w fn b of
       None \<Rightarrow> raiseP LibraryError
     | Some fib \<Rightarrow>
         bindP (read_file (join po ''dictionary_TRK_kept.dict'')) (\<lambda>kept.
         bindP (liftP (boolean_index (streamlines fib) (map (\<lambda>k. k \<noteq> 0) kept))) (\<lambda>tractogram_out.
         write_file po (join po (''dictionary_TRK_fibers'' @ extension))
           (streamlines_save w
              \<lparr>hdr = (hdr fib)\<lparr>count := Some (int (length tractogram_out)),
                                nb_streamlines := Some (int (length tractogram_out))\<rparr>,
               streamlines = tractogram_out\<rparr>
              (join po (''dictionary_TRK_fibers'' @ extension))))))"

text \<open>Lines 393-408: the density image and the mask, with the affine of lines 394-399.\<close>

definition output_affine :: "geometry \<Rightarrow> nifti option \<Rightarrow> peaks option \<Rightarrow> matrix" where
  "output_affine g msk pk =
     (case msk of
        Some m \<Rightarrow> affine m
      | None \<Rightarrow>
          (case pk of
             Some p \<Rightarrow> affine (pk_nii p)
           | None \<Rightarrow> [[g_Px g, 0, 0, 0], [0, g_Py g, 0, 0], [0, 0, g_Pz g, 0], [0, 0, 0, 1]]))"

definition save_maps ::
  "world \<Rightarrow> string \<Rightarrow> geometry \<Rightarrow> nifti option \<Rightarrow> peaks option \<Rightarrow> real list \<Rightarrow> unit prog" where
  "save_maps w po g msk pk tdi =
     (let aff = output_affine g msk pk;
          sh = [nat (g_Nx g), nat (g_Ny g), nat (g_Nz g)]
      in
        bindP (write_file po (join po ''dictionary_tdi.nii.gz'')
                 (nibabel_save w (tdi, sh, aff) (join po ''dictionary_tdi.nii.gz''))) (\<lambda>_.
        write_file po (join po ''dictionary_mask.nii.gz'')
          (nibabel_save w
             (case msk of
                Some m \<Rightarrow> (voxels m, shape m, aff)
              | None \<Rightarrow> (map (\<lambda>v. if v > 0 then 1 else 0) tdi, sh, aff))
             (join po ''dictionary_mask.nii.gz''))))"

subsection \<open>The conversion: \<^verbatim>\<open>run\<close> (lines 26-408)\<close>

text \<open>
  Everything before the output directory is touched (lines 101-354): line 101 appends
  to \<^verbatim>\<open>path_out\<close>, which fails on \<^verbatim>\<open>None\<close>.
\<close>

record inputs =
  s_path_out :: string
  s_filename :: string
  s_shifts :: "real \<times> real \<times> real"
  s_blur :: blur
  s_htable :: "int list"
  s_tractogram :: string
  s_extension :: string
  s_geometry :: geometry
  s_ArrayInvM :: "real list option"
  s_mask :: "nifti option"
  s_tdi :: "real list"
  s_peaks :: "peaks option"

definition run_setup :: "world \<Rightarrow> run_args \<Rightarrow> inputs prog" where
  "run_setup w a =
     (case path_out a of
        None \<Rightarrow> raiseP TypeError
      | Some po \<Rightarrow>
          bindP (liftP (check_parameters a)) (\<lambda>(shifts, b).
          bindP (load_tractogram w a) (\<lambda>(htable, fn, extension, g, invM).
          bindP (load_mask w a g) (\<lambda>msk.
          bindP (liftP (zeros g)) (\<lambda>tdi.
          bindP (load_peaks w a g) (\<lambda>pk.
          returnP \<lparr>s_path_out = po, s_filename = po @ ''/dictionary_info.pickle'',
                   s_shifts = shifts, s_blur = b, s_htable = htable, s_tractogram = fn,
                   s_extension = extension, s_geometry = g, s_ArrayInvM = invM,
                   s_mask = msk, s_tdi = tdi, s_peaks = pk\<rparr>))))))"

text \<open>Lines 356-408, from the values the first part has set up.\<close>

definition run_convert :: "world \<Rightarrow> run_args \<Rightarrow> inputs \<Rightarrow> unit prog" where
  "run_convert w a c =
     bindP (write_info w a (s_path_out c) (s_filename c)) (\<lambda>_.
     bindP (liftP (native_arguments a (s_path_out c) (s_tractogram c) (s_geometry c)
                     (s_shifts c) (s_blur c) (s_htable c) (s_ArrayInvM c) (s_mask c)
                     (s_peaks c) (s_tdi c))) (\<lambda>args.
     bindP (call_native w args) (\<lambda>(ret, tdi).
     if ret = 0 then emit (Print ''[ DICTIONARY not generated ]'')
     else
       bindP (if gen_trk a
              then generate_trk w (s_path_out c) (s_tractogram c) (s_extension c)
              else returnP ()) (\<lambda>_.
       save_maps w (s_path_out c) (s_geometry c) (s_mask c) (s_peaks c) tdi))))"

definition run :: "world \<Rightarrow> run_args \<Rightarrow> unit prog" where
  "run w a = bindP (run_setup w a) (\<lambda>c. run_convert w a c)"

subsection \<open>The encoding of the merged layout, as the specification words it\<close>

text \<open>
  The voxel index \<open>x + Nx * (y + Ny * z)\<close> and the orientation index \<open>oy + 181 * ox\<close> of
  one record, in the unsigned integers of the merged files, and the arrays of such
  indices. They are compared below with \<open>merge_v\<close> and \<open>merge_o\<close>, which follow the
  source.
\<close>

definition encode_v :: "nat \<Rightarrow> nat \<Rightarrow> 32 word \<Rightarrow> 32 word \<Rightarrow> 32 word \<Rightarrow> 32 word" where
  "encode_v Nx Ny x y z = x + of_nat Nx * (y + of_nat Ny * z)"

definition encode_o :: "16 word \<Rightarrow> 16 word \<Rightarrow> 16 word" where
  "encode_o ox oy = oy + 181 * ox"

definition encode_v_array :: "nat \<Rightarrow> nat \<Rightarrow> 32 word list \<Rightarrow> 32 word list \<Rightarrow> 32 word list \<Rightarrow> 32 word list" where
  "encode_v_array Nx Ny xs ys zs = map (\<lambda>(x, y, z). encode_v Nx Ny x y z) (zip xs (zip ys zs))"

definition encode_o_array :: "16 word list \<Rightarrow> 16 word list \<Rightarrow> 16 word list" where
  "encode_o_array xs ys = map (\<lambda>(x, y). encode_o x y) (zip xs ys)"

text \<open>
  A dictionary in the old layout: the ten split files with their contents, in a
  directory that also holds the density image from which the extents are read. The
  arrays of one group have the same number of records, and the extents fit the unsigned
  32-bit integers of the merged voxel file.
\<close>

record legacy =
  l_IC_vx :: "byte list"
  l_IC_vy :: "byte list"
  l_IC_vz :: "byte list"
  l_EC_vx :: "byte list"
  l_EC_vy :: "byte list"
  l_EC_vz :: "byte list"
  l_IC_ox :: "byte list"
  l_IC_oy :: "byte list"
  l_EC_ox :: "byte list"
  l_EC_oy :: "byte list"

definition tdi_shape :: "world \<Rightarrow> string \<Rightarrow> state \<Rightarrow> nat list option" where
  "tdi_shape w path s =
     (case files s (join path ''dictionary_tdi.nii.gz'') of
        None \<Rightarrow> None
      | Some b \<Rightarrow> map_option shape (nibabel_load w (join path ''dictionary_tdi.nii.gz'') b))"

definition legacy_layout :: "world \<Rightarrow> string \<Rightarrow> state \<Rightarrow> nat \<times> nat \<times> nat \<Rightarrow> legacy \<Rightarrow> bool" where
  "legacy_layout w path s N L =
     (path \<in> dirs s \<and> join path ''dictionary_IC_vx.dict'' \<notin> dirs s \<and>
      map_option shape3 (tdi_shape w path s) = Some (Inr N) \<and>
      fst N < 2 ^ 32 \<and> fst (snd N) < 2 ^ 32 \<and>
      files s (join path ''dictionary_IC_vx.dict'') = Some (l_IC_vx L) \<and>
      files s (join path ''dictionary_IC_vy.dict'') = Some (l_IC_vy L) \<and>
      files s (join path ''dictionary_IC_vz.dict'') = Some (l_IC_vz L) \<and>
      files s (join path ''dictionary_EC_vx.dict'') = Some (l_EC_vx L) \<and>
      files s (join path ''dictionary_EC_vy.dict'') = Some (l_EC_vy L) \<and>
      files s (join path ''dictionary_EC_vz.dict'') = Some (l_EC_vz L) \<and>
      files s (join path ''dictionary_IC_ox.dict'') = Some (l_IC_ox L) \<and>
      files s (join path ''dictionary_IC_oy.dict'') = Some (l_IC_oy L) \<and>
      files s (join path ''dictionary_EC_ox.dict'') = Some (l_EC_ox L) \<and>
      files s (join path ''dictionary_EC_oy.dict'') = Some (l_EC_oy L) \<and>
      length (decode_u16 (l_IC_vx L)) = length (decode_u16 (l_IC_vy L)) \<and>
      length (decode_u16 (l_IC_vy L)) = length (decode_u16 (l_IC_vz L)) \<and>
      length (l_EC_vx L) = length (l_EC_vy L) \<and> length (l_EC_vy L) = length (l_EC_vz L) \<and>
      length (l_IC_ox L) = length (l_IC_oy L) \<and> length (l_EC_ox L) = length (l_EC_oy L))"

definition merged_IC_v ::
  "string \<Rightarrow> nat \<Rightarrow> nat \<Rightarrow> legacy \<Rightarrow> (string \<rightharpoonup> byte list) \<Rightarrow> (string \<rightharpoonup> byte list)" where
  "merged_IC_v path Nx Ny L fs = fs
     (join path ''dictionary_IC_v.dict'' \<mapsto>
        concat (map bytes_u32 (encode_v_array Nx Ny (astype (decode_u16 (l_IC_vx L)))
          (astype (decode_u16 (l_IC_vy L))) (astype (decode_u16 (l_IC_vz L))))),
      join path ''dictionary_IC_vx.dict'' := None,
      join path ''dictionary_IC_vy.dict'' := None,
      join path ''dictionary_IC_vz.dict'' := None)"

definition merged_EC_v ::
  "string \<Rightarrow> nat \<Rightarrow> nat \<Rightarrow> legacy \<Rightarrow> (string \<rightharpoonup> byte list) \<Rightarrow> (string \<rightharpoonup> byte list)" where
  "merged_EC_v path Nx Ny L fs = fs
     (join path ''dictionary_EC_v.dict'' \<mapsto>
        concat (map bytes_u32 (encode_v_array Nx Ny (astype (l_EC_vx L))
          (astype (l_EC_vy L)) (astype (l_EC_vz L)))),
      join path ''dictionary_EC_vx.dict'' := None,
      join path ''dictionary_EC_vy.dict'' := None,
      join path ''dictionary_EC_vz.dict'' := None)"

definition merged_IC_o :: "string \<Rightarrow> legacy \<Rightarrow> (string \<rightharpoonup> byte list) \<Rightarrow> (string \<rightharpoonup> byte list)" where
  "merged_IC_o path L fs = fs
     (join path ''dictionary_IC_o.dict'' \<mapsto>
        concat (map bytes_u16 (encode_o_array (astype (l_IC_ox L)) (astype (l_IC_oy L)))),
      join path ''dictionary_IC_ox.dict'' := None,
      join path ''dictionary_IC_oy.dict'' := None)"

definition merged_EC_o :: "string \<Rightarrow> legacy \<Rightarrow> (string \<rightharpoonup> byte list) \<Rightarrow> (string \<rightharpoonup> byte list)" where
  "merged_EC_o path L fs = fs
     (join path ''dictionary_EC_o.dict'' \<mapsto>
        concat (map bytes_u16 (encode_o_array (astype (l_EC_ox L)) (astype (l_EC_oy L)))),
      join path ''dictionary_EC_ox.dict'' := None,
      join path ''dictionary_EC_oy.dict'' := None)"

definition migrated ::
  "string \<Rightarrow> nat \<Rightarrow> nat \<Rightarrow> legacy \<Rightarrow> (string \<rightharpoonup> byte list) \<Rightarrow> (string \<rightharpoonup> byte list)" where
  "migrated path Nx Ny L fs =
     merged_EC_o path L (merged_IC_o path L (merged_EC_v path Nx Ny L (merged_IC_v path Nx Ny L fs)))"

definition legacy_names :: "string list" where
  "legacy_names =
     [''dictionary_IC_vx.dict'', ''dictionary_IC_vy.dict'', ''dictionary_IC_vz.dict'',
      ''dictionary_EC_vx.dict'', ''dictionary_EC_vy.dict'', ''dictionary_EC_vz.dict'',
      ''dictionary_IC_ox.dict'', ''dictionary_IC_oy.dict'',
      ''dictionary_EC_ox.dict'', ''dictionary_EC_oy.dict'']"

definition merged_names :: "string list" where
  "merged_names =
     [''dictionary_IC_v.dict'', ''dictionary_EC_v.dict'',
      ''dictionary_IC_o.dict'', ''dictionary_EC_o.dict'']"

text \<open>A small dictionary in the old layout, and collaborators that load it.\<close>

definition example_image :: nifti where
  "example_image = \<lparr>shape = [2, 2, 2], pixdim = [1, 1, 1, 1, 1, 1, 1, 1],
     affine = [[1, 0, 0, 0], [0, 1, 0, 0], [0, 0, 1, 0], [0, 0, 0, 1]],
     best_affine = [[1, 0, 0, 0], [0, 1, 0, 0], [0, 0, 1, 0], [0, 0, 0, 1]],
     voxels = [0, 0, 0, 0, 0, 0, 0, 0]\<rparr>"

definition example_legacy :: legacy where
  "example_legacy = \<lparr>l_IC_vx = [1, 0], l_IC_vy = [0, 0], l_IC_vz = [1, 0],
     l_EC_vx = [1], l_EC_vy = [1], l_EC_vz = [0],
     l_IC_ox = [3], l_IC_oy = [4], l_EC_ox = [0], l_EC_oy = [5]\<rparr>"

definition example_legacy_files :: "string \<rightharpoonup> byte list" where
  "example_legacy_files p =
     (if p = ''d/dictionary_tdi.nii.gz'' then Some []
      else if p = ''d/dictionary_IC_vx.dict'' then Some [1, 0]
      else if p = ''d/dictionary_IC_vy.dict'' then Some [0, 0]
      else if p = ''d/dictionary_IC_vz.dict'' then Some [1, 0]
      else if p = ''d/dictionary_EC_vx.dict'' then Some [1]
      else if p = ''d/dictionary_EC_vy.dict'' then Some [1]
      else if p = ''d/dictionary_EC_vz.dict'' then Some [0]
      else if p = ''d/dictionary_IC_ox.dict'' then Some [3]
      else if p = ''d/dictionary_IC_oy.dict'' then Some [4]
      else if p = ''d/dictionary_EC_ox.dict'' then Some [0]
      else if p = ''d/dictionary_EC_oy.dict'' then Some [5]
      else None)"

definition example_legacy_state :: state where
  "example_legacy_state = \<lparr>files = example_legacy_files, dirs = {''d''}, trace = []\<rparr>"

definition example_world :: world where
  "example_world =
     \<lparr>load_precomputed_hash_table = (\<lambda>n. Some []),
      streamlines_load = (\<lambda>p b. None),
      streamlines_save = (\<lambda>t p. []),
      nibabel_load = (\<lambda>p b. Some example_image),
      nibabel_save = (\<lambda>i p. []),
      pickle_dump = (\<lambda>d. []),
      tck_inverse_affine = (\<lambda>p m. None),
      trk2dictionary = (\<lambda>a (fs, ds). (0, [], fs, ds))\<rparr>"

subsection \<open>Properties of procedures\<close>

text \<open>
  \<open>never_raises m p\<close>: the procedure never raises the RuntimeError with message \<open>m\<close>.
  \<open>reads_only p\<close>: the procedure leaves files and directories as they are and adds to
  the trace only messages, reads and the loading of the hash table.
  \<open>agree p q\<close>: from states with the same file system, the two procedures give the
  same result and leave the same file system; their traces may differ.
\<close>

definition never_raises :: "string \<Rightarrow> 'a prog \<Rightarrow> bool" where
  "never_raises m p = (\<forall>s. fst (p s) \<noteq> Inl (RuntimeError m))"

definition quiet :: "event \<Rightarrow> bool" where
  "quiet e = (case e of Print _ \<Rightarrow> True | ReadFile _ \<Rightarrow> True | LoadHashTable _ \<Rightarrow> True | _ \<Rightarrow> False)"

definition reads_only :: "'a prog \<Rightarrow> bool" where
  "reads_only p =
     (\<forall>s. files (snd (p s)) = files s \<and> dirs (snd (p s)) = dirs s \<and>
          (\<exists>t. trace (snd (p s)) = trace s @ t \<and> list_all quiet t))"

definition same_files :: "state \<Rightarrow> state \<Rightarrow> bool" where
  "same_files s s' = (files s = files s' \<and> dirs s = dirs s')"

definition agree :: "'a prog \<Rightarrow> 'a prog \<Rightarrow> bool" where
  "agree p q =
     (\<forall>s s'. same_files s s' \<longrightarrow> fst (p s) = fst (q s') \<and> same_files (snd (p s)) (snd (q s')))"

definition other_messages :: "string list" where
  "other_messages =
     [''fiber_shift must be a scalar or a vector with 3 elements'',
      ''number of radii and samples must match'',
      ''min_seg_len must be >= 0'',
      ''Tractogram file not defined'',
      ''The max dim size is 2^16 voxels'',
      ''TCK files do not contain information about the geometry.'',
      ''PEAKS dataset must have 3*k volumes'',
      ''vf_THR must be between 0 and 1'']"

subsection \<open>Example inputs\<close>

definition example_header :: streamlines_header where
  "example_header =
     \<lparr>dimensions = Some [2, 2, 2], voxel_sizes = Some [1, 1, 1], nb_streamlines = Some 2,
      nb_scalars_per_point = Some 0, nb_properties_per_streamline = Some 0,
      offset_data = None, count = None\<rparr>"

definition example_tractogram :: tractogram_file where
  "example_tractogram =
     \<lparr>hdr = example_header, streamlines = [[(0, 0, 0), (1, 1, 1)], [(1, 1, 1), (1, 1, 0)]]\<rparr>"

definition example_kernel ::
  "int \<Rightarrow> native_args \<Rightarrow> (string \<rightharpoonup> byte list) \<times> string set
     \<Rightarrow> int \<times> real list \<times> (string \<rightharpoonup> byte list) \<times> string set" where
  "example_kernel ret a fd =
     (ret, c_TDI a,
      (\<lambda>p. if p = join (c_path_out a) ''dictionary_TRK_kept.dict'' \<and> ret \<noteq> 0
           then Some [1, 0] else fst fd p),
      snd fd)"

definition example_run_world :: "int \<Rightarrow> world" where
  "example_run_world ret =
     \<lparr>load_precomputed_hash_table = (\<lambda>n. Some []),
      streamlines_load = (\<lambda>p b. Some example_tractogram),
      streamlines_save = (\<lambda>t p. []),
      nibabel_load = (\<lambda>p b. Some example_image),
      nibabel_save = (\<lambda>i p. []),
      pickle_dump = (\<lambda>d. []),
      tck_inverse_affine = (\<lambda>p m. Some []),
      trk2dictionary = example_kernel ret\<rparr>"

definition example_args :: run_args where
  "example_args =
     \<lparr>filename_tractogram = Some ''a.trk'', path_out = Some ''out'', filename_peaks = None,
      filename_mask = None, do_intersect = True, fiber_shift = Scalar 0, points_to_skip = 0,
      vf_THR = 1 / 10, peaks_use_affine = False, flip_peaks = [False, False, False],
      min_seg_len = 1 / 1000, gen_trk = True, blur_radii = [], blur_samples = [],
      blur_sigma = 1, filename_trk = None, TCK_ref_image = None, ndirs = 32761\<rparr>"

definition example_tck_header :: streamlines_header where
  "example_tck_header =
     \<lparr>dimensions = None, voxel_sizes = None, nb_streamlines = None,
      nb_scalars_per_point = None, nb_properties_per_streamline = None,
      offset_data = Some 100, count = Some 2\<rparr>"

definition example_tck_world :: world where
  "example_tck_world =
     (example_run_world 1)
       \<lparr>streamlines_load :=
          (\<lambda>p b. Some \<lparr>hdr = example_tck_header, streamlines = []\<rparr>),
        nibabel_load := (\<lambda>p b. Some (example_image\<lparr>shape := [10, 70000, 10]\<rparr>))\<rparr>"

definition example_tck_args :: run_args where
  "example_tck_args =
     example_args\<lparr>filename_tractogram := Some ''a.tck'', TCK_ref_image := Some ''ref.nii''\<rparr>"

definition example_tck_state :: state where
  "example_tck_state =
     \<lparr>files = (\<lambda>p. if p = ''a.tck'' \<or> p = ''ref.nii'' then Some [] else None),
      dirs = {}, trace = []\<rparr>"

definition example_state :: state where
  "example_state =
     \<lparr>files = (\<lambda>p. if p = ''a.trk'' then Some [] else None), dirs = {}, trace = []\<rparr>"

definition example_peaks_world :: world where
  "example_peaks_world =
     (example_run_world 1)
       \<lparr>nibabel_load := (\<lambda>p b. Some (example_image\<lparr>shape := [2, 2, 2, 3]\<rparr>))\<rparr>"

definition example_peaks_args :: run_args where
  "example_peaks_args = example_args\<lparr>filename_peaks := Some ''peaks.nii'', vf_THR := 5\<rparr>"

definition example_peaks_state :: state where
  "example_peaks_state =
     \<lparr>files = (\<lambda>p. if p = ''a.trk'' \<or> p = ''peaks.nii'' then Some [] else None),
      dirs = {}, trace = []\<rparr>"

section \<open>Proofs\<close>

subsection \<open>Rules for the procedures\<close>

lemma returnP_apply [simp]: "returnP x s = (Inr x, s)"
  by (simp add: returnP_def)

lemma raiseP_apply [simp]: "raiseP e s = (Inl e, s)"
  by (simp add: raiseP_def)

lemma liftP_apply [simp]: "liftP r s = (r, s)"
  by (simp add: liftP_def)

lemma emit_apply [simp]: "emit e s = (Inr (), s\<lparr>trace := trace s @ [e]\<rparr>)"
  by (simp add: emit_def)

lemma exists_path_apply [simp]:
  "exists_path p s = (Inr (p \<in> dom (files s) \<or> p \<in> dirs s), s)"
  by (simp add: exists_path_def)

lemma bindP_Inr: "m s = (Inr x, s') \<Longrightarrow> bindP m f s = f x s'"
  by (simp add: bindP_def)

lemma bindP_Inl: "m s = (Inl e, s') \<Longrightarrow> bindP m f s = (Inl e, s')"
  by (simp add: bindP_def)

lemma bindP_InrD:
  "bindP m f s = (Inr y, s') \<Longrightarrow> \<exists>x s1. m s = (Inr x, s1) \<and> f x s1 = (Inr y, s')"
  by (auto simp: bindP_def split: prod.splits sum.splits)

lemma bindE_Inr [simp]: "bindE (Inr x) f = f x"
  by (simp add: bindE_def)

lemma bindE_Inl [simp]: "bindE (Inl e) f = Inl e"
  by (simp add: bindE_def)

lemma read_file_Some:
  "files s p = Some b \<Longrightarrow> read_file p s = (Inr b, s\<lparr>trace := trace s @ [ReadFile p]\<rparr>)"
  by (simp add: read_file_def bindP_def)

lemma read_file_None:
  "files s p = None \<Longrightarrow>
     read_file p s = (Inl (FileNotFoundError p), s\<lparr>trace := trace s @ [ReadFile p]\<rparr>)"
  by (simp add: read_file_def bindP_def)

lemma write_file_ok:
  "d \<in> dirs s \<Longrightarrow>
     write_file d p b s = (Inr (), s\<lparr>trace := trace s @ [WriteFile p], files := (files s)(p \<mapsto> b)\<rparr>)"
  by (simp add: write_file_def bindP_def)

lemma remove_Some:
  "files s p = Some b \<Longrightarrow>
     remove p s = (Inr (), s\<lparr>trace := trace s @ [RemoveFile p], files := (files s)(p := None)\<rparr>)"
  by (simp add: remove_def bindP_def)

lemma load_image_Some:
  "files s p = Some b \<Longrightarrow> nibabel_load w p b = Some img \<Longrightarrow>
     load_image w p s = (Inr img, s\<lparr>trace := trace s @ [ReadFile p]\<rparr>)"
  by (simp add: load_image_def bindP_def read_file_Some)

lemma join_d_eq [simp]: "(join a (CHR ''d'' # b) = join a (CHR ''d'' # b')) = (b = b')"
  by (auto simp: join_def)

lemmas lookup_simps =
  fun_upd_apply join_d_eq list.inject char.inject simp_thms if_False if_True

lemma shape3_ok [simp]: "shape3 (a # b # c # r) = Inr (a, b, c)"
  by (simp add: shape3_def)

lemma map2_map_right: "map2 f xs (map g ys) = map2 (\<lambda>x y. f x (g y)) xs ys"
  by (induction xs ys rule: list_induct2') auto

lemma merge_v_eq:
  assumes "length x = length y" "length y = length z" "Nx < 2 ^ 32" "Ny < 2 ^ 32"
  shows "merge_v Nx Ny x y z = Inr (encode_v_array Nx Ny x y z)"
  using assms
  by (simp add: merge_v_def scalar_times_def array_plus_def encode_v_def encode_v_array_def
      zip_map2 map2_map_right zip_map_map split_def)

lemma merge_o_eq:
  assumes "length x = length y"
  shows "merge_o x y = Inr (encode_o_array x y)"
  using assms
  apply (simp add: merge_o_def scalar_times_def array_plus_def encode_o_def encode_o_array_def)
  apply (induction x y rule: list_induct2)
   apply auto
  done

lemmas io_simps = bindP_def read_file_Some write_file_ok remove_Some load_image_Some

lemma convert_IC_v_result:
  assumes "path \<in> dirs s" "Nx < 2 ^ 32" "Ny < 2 ^ 32"
    and "files s (join path ''dictionary_IC_vx.dict'') = Some bx"
      "files s (join path ''dictionary_IC_vy.dict'') = Some cy"
      "files s (join path ''dictionary_IC_vz.dict'') = Some bz"
      "length (decode_u16 bx) = length (decode_u16 cy)"
      "length (decode_u16 cy) = length (decode_u16 bz)"
  shows "convert_IC_v path Nx Ny s =
    (Inr (), s\<lparr>trace := trace s @
        [ReadFile (join path ''dictionary_IC_vx.dict''),
         ReadFile (join path ''dictionary_IC_vy.dict''),
         ReadFile (join path ''dictionary_IC_vz.dict''),
         WriteFile (join path ''dictionary_IC_v.dict''),
         RemoveFile (join path ''dictionary_IC_vx.dict''),
         RemoveFile (join path ''dictionary_IC_vy.dict''),
         RemoveFile (join path ''dictionary_IC_vz.dict'')],
      files := (files s)
        (join path ''dictionary_IC_v.dict'' \<mapsto>
           concat (map bytes_u32 (encode_v_array Nx Ny (astype (decode_u16 bx))
             (astype (decode_u16 cy)) (astype (decode_u16 bz)))),
         join path ''dictionary_IC_vx.dict'' := None,
         join path ''dictionary_IC_vy.dict'' := None,
         join path ''dictionary_IC_vz.dict'' := None)\<rparr>)"
  using assms
  by (simp add: convert_IC_v_def fromfile_u16_def tofile_u32_def merge_v_eq astype_def io_simps)

lemma convert_EC_v_result:
  assumes "path \<in> dirs s" "Nx < 2 ^ 32" "Ny < 2 ^ 32"
    and "files s (join path ''dictionary_EC_vx.dict'') = Some bx"
      "files s (join path ''dictionary_EC_vy.dict'') = Some cy"
      "files s (join path ''dictionary_EC_vz.dict'') = Some bz"
      "length bx = length cy" "length cy = length bz"
  shows "convert_EC_v path Nx Ny s =
    (Inr (), s\<lparr>trace := trace s @
        [ReadFile (join path ''dictionary_EC_vx.dict''),
         ReadFile (join path ''dictionary_EC_vy.dict''),
         ReadFile (join path ''dictionary_EC_vz.dict''),
         WriteFile (join path ''dictionary_EC_v.dict''),
         RemoveFile (join path ''dictionary_EC_vx.dict''),
         RemoveFile (join path ''dictionary_EC_vy.dict''),
         RemoveFile (join path ''dictionary_EC_vz.dict'')],
      files := (files s)
        (join path ''dictionary_EC_v.dict'' \<mapsto>
           concat (map bytes_u32 (encode_v_array Nx Ny (astype bx) (astype cy) (astype bz))),
         join path ''dictionary_EC_vx.dict'' := None,
         join path ''dictionary_EC_vy.dict'' := None,
         join path ''dictionary_EC_vz.dict'' := None)\<rparr>)"
  using assms
  by (simp add: convert_EC_v_def fromfile_u8_def tofile_u32_def merge_v_eq astype_def io_simps)

lemma convert_IC_o_result:
  assumes "path \<in> dirs s"
    and "files s (join path ''dictionary_IC_ox.dict'') = Some bx"
      "files s (join path ''dictionary_IC_oy.dict'') = Some cy"
      "length bx = length cy"
  shows "convert_IC_o path s =
    (Inr (), s\<lparr>trace := trace s @
        [ReadFile (join path ''dictionary_IC_ox.dict''),
         ReadFile (join path ''dictionary_IC_oy.dict''),
         WriteFile (join path ''dictionary_IC_o.dict''),
         RemoveFile (join path ''dictionary_IC_ox.dict''),
         RemoveFile (join path ''dictionary_IC_oy.dict'')],
      files := (files s)
        (join path ''dictionary_IC_o.dict'' \<mapsto>
           concat (map bytes_u16 (encode_o_array (astype bx) (astype cy))),
         join path ''dictionary_IC_ox.dict'' := None,
         join path ''dictionary_IC_oy.dict'' := None)\<rparr>)"
  using assms
  by (simp add: convert_IC_o_def fromfile_u8_def tofile_u16_def merge_o_eq astype_def io_simps)

lemma convert_EC_o_result:
  assumes "path \<in> dirs s"
    and "files s (join path ''dictionary_EC_ox.dict'') = Some bx"
      "files s (join path ''dictionary_EC_oy.dict'') = Some cy"
      "length bx = length cy"
  shows "convert_EC_o path s =
    (Inr (), s\<lparr>trace := trace s @
        [ReadFile (join path ''dictionary_EC_ox.dict''),
         ReadFile (join path ''dictionary_EC_oy.dict''),
         WriteFile (join path ''dictionary_EC_o.dict''),
         RemoveFile (join path ''dictionary_EC_ox.dict''),
         RemoveFile (join path ''dictionary_EC_oy.dict'')],
      files := (files s)
        (join path ''dictionary_EC_o.dict'' \<mapsto>
           concat (map bytes_u16 (encode_o_array (astype bx) (astype cy))),
         join path ''dictionary_EC_ox.dict'' := None,
         join path ''dictionary_EC_oy.dict'' := None)\<rparr>)"
  using assms
  by (simp add: convert_EC_o_def fromfile_u8_def tofile_u16_def merge_o_eq astype_def io_simps)

subsection \<open>The migration\<close>

lemma convert_absent:
  assumes "join path ''dictionary_IC_vx.dict'' \<notin> dom (files s)"
      and "join path ''dictionary_IC_vx.dict'' \<notin> dirs s"
  shows "convert_old_dictionary w path s =
           (Inl (RuntimeError ''Folder does not contain dictionary files in the old format''), s)"
  using assms by (simp add: convert_old_dictionary_def bindP_def)

lemmas merged_defs = merged_IC_v_def merged_EC_v_def merged_IC_o_def merged_EC_o_def

lemma convert_IC_v_effect:
  assumes "path \<in> dirs s" "Nx < 2 ^ 32" "Ny < 2 ^ 32"
    and "files s (join path ''dictionary_IC_vx.dict'') = Some (l_IC_vx L)"
      "files s (join path ''dictionary_IC_vy.dict'') = Some (l_IC_vy L)"
      "files s (join path ''dictionary_IC_vz.dict'') = Some (l_IC_vz L)"
      "length (decode_u16 (l_IC_vx L)) = length (decode_u16 (l_IC_vy L))"
      "length (decode_u16 (l_IC_vy L)) = length (decode_u16 (l_IC_vz L))"
  shows "\<exists>s'. convert_IC_v path Nx Ny s = (Inr (), s') \<and>
           files s' = merged_IC_v path Nx Ny L (files s) \<and> dirs s' = dirs s"
  by (subst convert_IC_v_result [OF assms]) (simp add: merged_IC_v_def)

lemma convert_EC_v_effect:
  assumes "path \<in> dirs s" "Nx < 2 ^ 32" "Ny < 2 ^ 32"
    and "files s (join path ''dictionary_EC_vx.dict'') = Some (l_EC_vx L)"
      "files s (join path ''dictionary_EC_vy.dict'') = Some (l_EC_vy L)"
      "files s (join path ''dictionary_EC_vz.dict'') = Some (l_EC_vz L)"
      "length (l_EC_vx L) = length (l_EC_vy L)" "length (l_EC_vy L) = length (l_EC_vz L)"
  shows "\<exists>s'. convert_EC_v path Nx Ny s = (Inr (), s') \<and>
           files s' = merged_EC_v path Nx Ny L (files s) \<and> dirs s' = dirs s"
  by (subst convert_EC_v_result [OF assms]) (simp add: merged_EC_v_def)

lemma convert_IC_o_effect:
  assumes "path \<in> dirs s"
    and "files s (join path ''dictionary_IC_ox.dict'') = Some (l_IC_ox L)"
      "files s (join path ''dictionary_IC_oy.dict'') = Some (l_IC_oy L)"
      "length (l_IC_ox L) = length (l_IC_oy L)"
  shows "\<exists>s'. convert_IC_o path s = (Inr (), s') \<and>
           files s' = merged_IC_o path L (files s) \<and> dirs s' = dirs s"
  by (subst convert_IC_o_result [OF assms]) (simp add: merged_IC_o_def)

lemma convert_EC_o_effect:
  assumes "path \<in> dirs s"
    and "files s (join path ''dictionary_EC_ox.dict'') = Some (l_EC_ox L)"
      "files s (join path ''dictionary_EC_oy.dict'') = Some (l_EC_oy L)"
      "length (l_EC_ox L) = length (l_EC_oy L)"
  shows "\<exists>s'. convert_EC_o path s = (Inr (), s') \<and>
           files s' = merged_EC_o path L (files s) \<and> dirs s' = dirs s"
  by (subst convert_EC_o_result [OF assms]) (simp add: merged_EC_o_def)

lemma convert_legacy:
  assumes L: "legacy_layout w path s (Nx, Ny, Nz) L"
  shows "\<exists>s'. convert_old_dictionary w path s = (Inr (), s') \<and>
           files s' = migrated path Nx Ny L (files s) \<and> dirs s' = dirs s"
proof -
  from L obtain b img where
    tdi: "files s (join path ''dictionary_tdi.nii.gz'') = Some b"
      "nibabel_load w (join path ''dictionary_tdi.nii.gz'') b = Some img"
      "shape3 (shape img) = Inr (Nx, Ny, Nz)"
    by (auto simp: legacy_layout_def tdi_shape_def split: option.splits)
  have L': "path \<in> dirs s" "Nx < 2 ^ 32" "Ny < 2 ^ 32"
    "files s (join path ''dictionary_IC_vx.dict'') = Some (l_IC_vx L)"
    "files s (join path ''dictionary_IC_vy.dict'') = Some (l_IC_vy L)"
    "files s (join path ''dictionary_IC_vz.dict'') = Some (l_IC_vz L)"
    "files s (join path ''dictionary_EC_vx.dict'') = Some (l_EC_vx L)"
    "files s (join path ''dictionary_EC_vy.dict'') = Some (l_EC_vy L)"
    "files s (join path ''dictionary_EC_vz.dict'') = Some (l_EC_vz L)"
    "files s (join path ''dictionary_IC_ox.dict'') = Some (l_IC_ox L)"
    "files s (join path ''dictionary_IC_oy.dict'') = Some (l_IC_oy L)"
    "files s (join path ''dictionary_EC_ox.dict'') = Some (l_EC_ox L)"
    "files s (join path ''dictionary_EC_oy.dict'') = Some (l_EC_oy L)"
    and len: "length (decode_u16 (l_IC_vx L)) = length (decode_u16 (l_IC_vy L))"
    "length (decode_u16 (l_IC_vy L)) = length (decode_u16 (l_IC_vz L))"
    "length (l_EC_vx L) = length (l_EC_vy L)" "length (l_EC_vy L) = length (l_EC_vz L)"
    "length (l_IC_ox L) = length (l_IC_oy L)" "length (l_EC_ox L) = length (l_EC_oy L)"
    using L unfolding legacy_layout_def fst_conv snd_conv by blast+
  define s0 where "s0 = s\<lparr>trace := trace s @ [ReadFile (join path ''dictionary_tdi.nii.gz'')]\<rparr>"
  have 0: "load_image w (join path ''dictionary_tdi.nii.gz'') s = (Inr img, s0)"
    using tdi by (simp add: load_image_Some s0_def)
  have f0: "files s0 = files s" and d0: "dirs s0 = dirs s"
    by (simp_all add: s0_def)
  obtain s1 where 1: "convert_IC_v path Nx Ny s0 = (Inr (), s1)"
    and f1: "files s1 = merged_IC_v path Nx Ny L (files s)" and d1: "dirs s1 = dirs s"
    using convert_IC_v_effect [of path s0 Nx Ny L] L' len unfolding f0 d0 by blast
  have l1: "files s1 (join path ''dictionary_EC_vx.dict'') = Some (l_EC_vx L)"
    "files s1 (join path ''dictionary_EC_vy.dict'') = Some (l_EC_vy L)"
    "files s1 (join path ''dictionary_EC_vz.dict'') = Some (l_EC_vz L)"
    by (simp_all only: f1 merged_defs lookup_simps L')
  obtain s2 where 2: "convert_EC_v path Nx Ny s1 = (Inr (), s2)"
    and f2: "files s2 = merged_EC_v path Nx Ny L (files s1)" and d2: "dirs s2 = dirs s"
    using convert_EC_v_effect [of path s1 Nx Ny L] L' len l1 unfolding d1 by blast
  have l2: "files s2 (join path ''dictionary_IC_ox.dict'') = Some (l_IC_ox L)"
    "files s2 (join path ''dictionary_IC_oy.dict'') = Some (l_IC_oy L)"
    by (simp_all only: f2 f1 merged_defs lookup_simps L')
  obtain s3 where 3: "convert_IC_o path s2 = (Inr (), s3)"
    and f3: "files s3 = merged_IC_o path L (files s2)" and d3: "dirs s3 = dirs s"
    using convert_IC_o_effect [of path s2 L] L' len l2 unfolding d2 by blast
  have l3: "files s3 (join path ''dictionary_EC_ox.dict'') = Some (l_EC_ox L)"
    "files s3 (join path ''dictionary_EC_oy.dict'') = Some (l_EC_oy L)"
    by (simp_all only: f3 f2 f1 merged_defs lookup_simps L')
  obtain s4 where 4: "convert_EC_o path s3 = (Inr (), s4)"
    and f4: "files s4 = merged_EC_o path L (files s3)" and d4: "dirs s4 = dirs s"
    using convert_EC_o_effect [of path s3 L] L' len l3 unfolding d3 by blast
  have found: "exists_path (join path ''dictionary_IC_vx.dict'') s = (Inr True, s)"
    using L'(4) by (simp add: domI)
  have sh: "liftP (shape3 (shape img)) s0 = (Inr (Nx, Ny, Nz), s0)"
    using tdi(3) by simp
  note b = bindP_Inr [where m = "exists_path (join path ''dictionary_IC_vx.dict'')" and s = s, OF found]
    bindP_Inr [where m = "load_image w (join path ''dictionary_tdi.nii.gz'')" and s = s, OF 0]
    bindP_Inr [where m = "liftP (shape3 (shape img))" and s = s0, OF sh]
    bindP_Inr [where m = "convert_IC_v path Nx Ny" and s = s0, OF 1]
    bindP_Inr [where m = "convert_EC_v path Nx Ny" and s = s1, OF 2]
    bindP_Inr [where m = "convert_IC_o path" and s = s2, OF 3]
  have "convert_old_dictionary w path s = (Inr (), s4)"
    unfolding convert_old_dictionary_def
    by (simp only: b simp_thms if_False prod.case 4)
  moreover have "files s4 = migrated path Nx Ny L (files s)"
    by (simp only: f4 f3 f2 f1 migrated_def)
  ultimately show ?thesis using d4 by blast
qed

lemma unat_encode_v:
  "unat (encode_v Nx Ny x y z) = (unat x + Nx * (unat y + Ny * unat z)) mod 2 ^ 32"
proof -
  have "encode_v Nx Ny x y z = word_of_nat (unat x + Nx * (unat y + Ny * unat z))"
    by (simp add: encode_v_def)
  then show ?thesis by (simp only: unat_of_nat) simp
qed

lemma unat_encode_o:
  fixes ox oy :: byte
  shows "unat (encode_o (ucast ox) (ucast oy)) = unat oy + 181 * unat ox"
proof -
  have a: "unat ox < 256" using unsigned_less [of ox, where 'a = nat] by simp
  have b: "unat oy < 256" using unsigned_less [of oy, where 'a = nat] by simp
  have "encode_o (ucast ox) (ucast oy) = word_of_nat (unat oy + 181 * unat ox)"
    by (simp add: encode_o_def)
  then have "unat (encode_o (ucast ox) (ucast oy)) = (unat oy + 181 * unat ox) mod 2 ^ 16"
    by (simp only: unat_of_nat) simp
  also have "\<dots> = unat oy + 181 * unat ox"
    using a b by simp
  finally show ?thesis .
qed

lemma index_bound:
  fixes x y z :: nat
  assumes "x < Nx" "y < Ny" "z < Nz"
  shows "x + Nx * (y + Ny * z) < Nx * Ny * Nz"
proof -
  have "y + Ny * z < Ny * (z + 1)" using assms by simp
  also have "\<dots> \<le> Ny * Nz" using assms by (intro mult_le_mono2) simp
  finally have "Nx * (y + Ny * z + 1) \<le> Nx * (Ny * Nz)"
    by (intro mult_le_mono2) simp
  moreover have "x + Nx * (y + Ny * z) < Nx * (y + Ny * z + 1)" using assms by simp
  ultimately show ?thesis by (simp add: mult.assoc)
qed

lemma index_decode:
  fixes x y z :: nat
  assumes "x < Nx" "y < Ny"
  shows "(x + Nx * (y + Ny * z)) mod Nx = x"
    and "((x + Nx * (y + Ny * z)) div Nx) mod Ny = y"
    and "(x + Nx * (y + Ny * z)) div (Nx * Ny) = z"
  using assms by (simp_all add: div_mult2_eq)

lemma encode_v_exact:
  assumes "Nx * Ny * Nz \<le> 2 ^ 32" "unat x < Nx" "unat y < Ny" "unat z < Nz"
  shows "unat (encode_v Nx Ny x y z) = unat x + Nx * (unat y + Ny * unat z)"
  using index_bound [OF assms(2-4)] assms(1) by (simp add: unat_encode_v)

lemma encode_v_inj:
  assumes N: "Nx * Ny * Nz \<le> 2 ^ 32"
    and r: "unat x < Nx" "unat y < Ny" "unat z < Nz"
    and r': "unat x' < Nx" "unat y' < Ny" "unat z' < Nz"
    and eq: "encode_v Nx Ny x y z = encode_v Nx Ny x' y' z'"
  shows "x = x' \<and> y = y' \<and> z = z'"
proof -
  have e: "unat x + Nx * (unat y + Ny * unat z) = unat x' + Nx * (unat y' + Ny * unat z')"
    using encode_v_exact [OF N r] encode_v_exact [OF N r'] eq by simp
  have "unat x = unat x'"
    using index_decode(1) [OF r(1,2), of "unat z"] index_decode(1) [OF r'(1,2), of "unat z'"] e
    by simp
  moreover have "unat y = unat y'"
    using index_decode(2) [OF r(1,2), of "unat z"] index_decode(2) [OF r'(1,2), of "unat z'"] e
    by simp
  moreover have "unat z = unat z'"
    using index_decode(3) [OF r(1,2), of "unat z"] index_decode(3) [OF r'(1,2), of "unat z'"] e
    by simp
  ultimately show ?thesis by (simp add: word_unat_eq_iff)
qed

lemma migrated_legacy_absent:
  "list_all (\<lambda>n. migrated path Nx Ny L fs (join path n) = None) legacy_names"
  by (simp only: legacy_names_def list.pred_inject migrated_def merged_defs lookup_simps)

lemma migrated_merged_present:
  "list_all (\<lambda>n. migrated path Nx Ny L fs (join path n) \<noteq> None) merged_names"
  by (simp only: merged_names_def list.pred_inject migrated_def merged_defs lookup_simps
      option.simps not_False_eq_True)

lemma migrated_frame:
  assumes "p \<notin> set (map (join path) (legacy_names @ merged_names))"
  shows "migrated path Nx Ny L fs p = fs p"
  using assms unfolding legacy_names_def merged_names_def migrated_def merged_defs
  by (simp only: list.map append.simps list.set insert_iff empty_iff de_Morgan_disj
      fun_upd_apply simp_thms if_False)

text \<open>
  Claim C7. \<^verbatim>\<open>convert_old_dictionary\<close> fails with the not-found error (the RuntimeError of
  line 422), leaving the state as it was, when the first legacy file is absent from the
  target directory. On a directory that holds the dictionary in the old layout it
  succeeds: the four merged files are written with the merged contents, the ten legacy
  files are gone, every other file and the directories are untouched. Running it again
  on the result is refused with the same not-found error and changes nothing, so the
  directory after two runs is the directory after one.
\<close>

theorem C7_convert_old_dictionary:
  "(join path ''dictionary_IC_vx.dict'' \<notin> dom (files s) \<and>
    join path ''dictionary_IC_vx.dict'' \<notin> dirs s \<longrightarrow>
      convert_old_dictionary w path s =
        (Inl (RuntimeError ''Folder does not contain dictionary files in the old format''), s))
   \<and> (legacy_layout w path s (Nx, Ny, Nz) L \<longrightarrow>
      (\<exists>s'. convert_old_dictionary w path s = (Inr (), s') \<and>
         files s' = migrated path Nx Ny L (files s) \<and> dirs s' = dirs s \<and>
         list_all (\<lambda>n. files s' (join path n) = None) legacy_names \<and>
         list_all (\<lambda>n. files s' (join path n) \<noteq> None) merged_names \<and>
         (\<forall>p. p \<notin> set (map (join path) (legacy_names @ merged_names)) \<longrightarrow>
            files s' p = files s p) \<and>
         convert_old_dictionary w path s' =
           (Inl (RuntimeError ''Folder does not contain dictionary files in the old format''), s')))"
proof (intro conjI impI)
  assume "join path ''dictionary_IC_vx.dict'' \<notin> dom (files s) \<and>
    join path ''dictionary_IC_vx.dict'' \<notin> dirs s"
  then show "convert_old_dictionary w path s =
      (Inl (RuntimeError ''Folder does not contain dictionary files in the old format''), s)"
    using convert_absent by blast
next
  assume L: "legacy_layout w path s (Nx, Ny, Nz) L"
  then obtain s' where 1: "convert_old_dictionary w path s = (Inr (), s')"
    and f: "files s' = migrated path Nx Ny L (files s)" and d: "dirs s' = dirs s"
    using convert_legacy by blast
  have nd: "join path ''dictionary_IC_vx.dict'' \<notin> dirs s'"
    using L d unfolding legacy_layout_def by blast
  have "files s' (join path ''dictionary_IC_vx.dict'') = None"
    by (simp only: f migrated_def merged_defs lookup_simps)
  then have 2: "convert_old_dictionary w path s' =
      (Inl (RuntimeError ''Folder does not contain dictionary files in the old format''), s')"
    using nd by (intro convert_absent) (simp_all add: domIff)
  have a: "list_all (\<lambda>n. files s' (join path n) = None) legacy_names"
    unfolding f by (rule migrated_legacy_absent)
  have b: "list_all (\<lambda>n. files s' (join path n) \<noteq> None) merged_names"
    unfolding f by (rule migrated_merged_present)
  have c: "\<forall>p. p \<notin> set (map (join path) (legacy_names @ merged_names)) \<longrightarrow>
      files s' p = files s p"
    unfolding f using migrated_frame by blast
  show "\<exists>s'. convert_old_dictionary w path s = (Inr (), s') \<and>
         files s' = migrated path Nx Ny L (files s) \<and> dirs s' = dirs s \<and>
         list_all (\<lambda>n. files s' (join path n) = None) legacy_names \<and>
         list_all (\<lambda>n. files s' (join path n) \<noteq> None) merged_names \<and>
         (\<forall>p. p \<notin> set (map (join path) (legacy_names @ merged_names)) \<longrightarrow>
            files s' p = files s p) \<and>
         convert_old_dictionary w path s' =
           (Inl (RuntimeError ''Folder does not contain dictionary files in the old format''), s')"
    using 1 f d a b c 2 by blast
qed

text \<open>
  Claim C1 as stated, for every grid. The voxel index is computed in unsigned 32-bit
  integers. On a grid of
  32767 x 32767 x 5 voxels the legacy records (4, 8, 4) and (0, 0, 0), both inside the
  grid, are merged to the same index 0: the encoding is not injective there.
\<close>

theorem C1_encoding_collision:
  "merge_v 32767 32767 [4] [8] [4] = Inr [0] \<and> merge_v 32767 32767 [0] [0] [0] = Inr [0] \<and>
   (4 :: nat) < 32767 \<and> (8 :: nat) < 32767 \<and> (4 :: nat) < 5"
  by (simp add: merge_v_def scalar_times_def array_plus_def)

lemma example_legacy_layout:
  "legacy_layout example_world ''d'' example_legacy_state (2, 2, 2) example_legacy"
  by (simp add: legacy_layout_def tdi_shape_def join_def example_legacy_state_def
      example_legacy_files_def example_world_def example_image_def example_legacy_def
      shape3_def)

theorem C7_convert_old_dictionary_witness:
  "legacy_layout example_world ''d'' example_legacy_state (2, 2, 2) example_legacy \<and>
   (\<exists>s'. convert_old_dictionary example_world ''d'' example_legacy_state = (Inr (), s') \<and>
      files s' = migrated ''d'' 2 2 example_legacy (files example_legacy_state) \<and>
      convert_old_dictionary example_world ''d'' s' =
        (Inl (RuntimeError ''Folder does not contain dictionary files in the old format''), s'))"
  using C7_convert_old_dictionary [of "''d''" example_legacy_state example_world 2 2 2 example_legacy]
    example_legacy_layout
  by blast

text \<open>
  Claim C1, amended. On a dictionary in the old layout the migration succeeds and writes,
  record by record, the voxel index \<open>encode_v\<close> of the legacy fields \<open>(vx, vy, vz)\<close>
  into the two voxel files and the orientation index \<open>encode_o\<close> of \<open>(ox, oy)\<close> into the
  two orientation files. The voxel index is \<open>x + Nx * (y + Ny * z)\<close> modulo \<open>2 ^ 32\<close>, the
  orientation index is \<open>oy + 181 * ox\<close> exactly. When \<open>Nx * Ny * Nz \<le> 2 ^ 32\<close> the voxel
  index is injective on the coordinates inside the grid, and \<open>(x, y, z)\<close> is recovered
  from it by division and remainder.
\<close>

theorem C1_migration_encoding:
  assumes "legacy_layout w path s (Nx, Ny, Nz) L"
  shows "(\<exists>s'. convert_old_dictionary w path s = (Inr (), s') \<and>
      files s' (join path ''dictionary_IC_v.dict'') =
        Some (concat (map bytes_u32 (encode_v_array Nx Ny (astype (decode_u16 (l_IC_vx L)))
          (astype (decode_u16 (l_IC_vy L))) (astype (decode_u16 (l_IC_vz L)))))) \<and>
      files s' (join path ''dictionary_EC_v.dict'') =
        Some (concat (map bytes_u32 (encode_v_array Nx Ny (astype (l_EC_vx L))
          (astype (l_EC_vy L)) (astype (l_EC_vz L))))) \<and>
      files s' (join path ''dictionary_IC_o.dict'') =
        Some (concat (map bytes_u16 (encode_o_array (astype (l_IC_ox L)) (astype (l_IC_oy L))))) \<and>
      files s' (join path ''dictionary_EC_o.dict'') =
        Some (concat (map bytes_u16 (encode_o_array (astype (l_EC_ox L)) (astype (l_EC_oy L))))))
    \<and> (\<forall>x y z. unat (encode_v Nx Ny x y z) = (unat x + Nx * (unat y + Ny * unat z)) mod 2 ^ 32)
    \<and> (\<forall>(ox :: byte) (oy :: byte). unat (encode_o (ucast ox) (ucast oy)) = unat oy + 181 * unat ox)
    \<and> (Nx * Ny * Nz \<le> 2 ^ 32 \<longrightarrow>
        (\<forall>x y z x' y' z'.
           unat x < Nx \<and> unat y < Ny \<and> unat z < Nz \<and>
           unat x' < Nx \<and> unat y' < Ny \<and> unat z' < Nz \<and>
           encode_v Nx Ny x y z = encode_v Nx Ny x' y' z' \<longrightarrow>
           x = x' \<and> y = y' \<and> z = z'))
    \<and> (Nx * Ny * Nz \<le> 2 ^ 32 \<longrightarrow>
        (\<forall>x y z. unat x < Nx \<and> unat y < Ny \<and> unat z < Nz \<longrightarrow>
           unat (encode_v Nx Ny x y z) mod Nx = unat x \<and>
           (unat (encode_v Nx Ny x y z) div Nx) mod Ny = unat y \<and>
           unat (encode_v Nx Ny x y z) div (Nx * Ny) = unat z))"
proof (intro conjI)
  obtain s' where 1: "convert_old_dictionary w path s = (Inr (), s')"
    and f: "files s' = migrated path Nx Ny L (files s)"
    using convert_legacy [OF assms] by blast
  have "files s' (join path ''dictionary_IC_v.dict'') =
        Some (concat (map bytes_u32 (encode_v_array Nx Ny (astype (decode_u16 (l_IC_vx L)))
          (astype (decode_u16 (l_IC_vy L))) (astype (decode_u16 (l_IC_vz L))))))"
    "files s' (join path ''dictionary_EC_v.dict'') =
        Some (concat (map bytes_u32 (encode_v_array Nx Ny (astype (l_EC_vx L))
          (astype (l_EC_vy L)) (astype (l_EC_vz L)))))"
    "files s' (join path ''dictionary_IC_o.dict'') =
        Some (concat (map bytes_u16 (encode_o_array (astype (l_IC_ox L)) (astype (l_IC_oy L)))))"
    "files s' (join path ''dictionary_EC_o.dict'') =
        Some (concat (map bytes_u16 (encode_o_array (astype (l_EC_ox L)) (astype (l_EC_oy L)))))"
    by (simp_all only: f migrated_def merged_defs lookup_simps)
  with 1 show "\<exists>s'. convert_old_dictionary w path s = (Inr (), s') \<and>
      files s' (join path ''dictionary_IC_v.dict'') =
        Some (concat (map bytes_u32 (encode_v_array Nx Ny (astype (decode_u16 (l_IC_vx L)))
          (astype (decode_u16 (l_IC_vy L))) (astype (decode_u16 (l_IC_vz L)))))) \<and>
      files s' (join path ''dictionary_EC_v.dict'') =
        Some (concat (map bytes_u32 (encode_v_array Nx Ny (astype (l_EC_vx L))
          (astype (l_EC_vy L)) (astype (l_EC_vz L))))) \<and>
      files s' (join path ''dictionary_IC_o.dict'') =
        Some (concat (map bytes_u16 (encode_o_array (astype (l_IC_ox L)) (astype (l_IC_oy L))))) \<and>
      files s' (join path ''dictionary_EC_o.dict'') =
        Some (concat (map bytes_u16 (encode_o_array (astype (l_EC_ox L)) (astype (l_EC_oy L)))))"
    by blast
next
  show "\<forall>x y z. unat (encode_v Nx Ny x y z) = (unat x + Nx * (unat y + Ny * unat z)) mod 2 ^ 32"
    by (simp only: unat_encode_v simp_thms)
next
  show "\<forall>(ox :: byte) (oy :: byte). unat (encode_o (ucast ox) (ucast oy)) = unat oy + 181 * unat ox"
    using unat_encode_o by blast
next
  show "Nx * Ny * Nz \<le> 2 ^ 32 \<longrightarrow>
        (\<forall>x y z x' y' z'.
           unat x < Nx \<and> unat y < Ny \<and> unat z < Nz \<and>
           unat x' < Nx \<and> unat y' < Ny \<and> unat z' < Nz \<and>
           encode_v Nx Ny x y z = encode_v Nx Ny x' y' z' \<longrightarrow>
           x = x' \<and> y = y' \<and> z = z')"
    using encode_v_inj by blast
next
  show "Nx * Ny * Nz \<le> 2 ^ 32 \<longrightarrow>
        (\<forall>x y z. unat x < Nx \<and> unat y < Ny \<and> unat z < Nz \<longrightarrow>
           unat (encode_v Nx Ny x y z) mod Nx = unat x \<and>
           (unat (encode_v Nx Ny x y z) div Nx) mod Ny = unat y \<and>
           unat (encode_v Nx Ny x y z) div (Nx * Ny) = unat z)"
    using encode_v_exact index_decode by (metis (no_types, lifting))
qed

theorem C1_migration_encoding_witness:
  "legacy_layout example_world ''d'' example_legacy_state (2, 2, 2) example_legacy \<and>
   (\<exists>s'. convert_old_dictionary example_world ''d'' example_legacy_state = (Inr (), s') \<and>
      files s' (join ''d'' ''dictionary_IC_v.dict'') =
        Some (concat (map bytes_u32 (encode_v_array 2 2 (astype (decode_u16 (l_IC_vx example_legacy)))
          (astype (decode_u16 (l_IC_vy example_legacy)))
          (astype (decode_u16 (l_IC_vz example_legacy))))))) \<and>
   (2 :: nat) * 2 * 2 \<le> 2 ^ 32"
proof -
  have n: "(2 :: nat) * 2 * 2 \<le> 2 ^ 32"
    by simp
  from C1_migration_encoding [OF example_legacy_layout]
  have "\<exists>s'. convert_old_dictionary example_world ''d'' example_legacy_state = (Inr (), s') \<and>
      files s' (join ''d'' ''dictionary_IC_v.dict'') =
        Some (concat (map bytes_u32 (encode_v_array 2 2 (astype (decode_u16 (l_IC_vx example_legacy)))
          (astype (decode_u16 (l_IC_vy example_legacy)))
          (astype (decode_u16 (l_IC_vz example_legacy))))))"
    by blast
  with example_legacy_layout n show ?thesis
    by blast
qed

subsection \<open>Errors that a run cannot raise\<close>

named_theorems never_intros
named_theorems reads_intros
named_theorems agree_intros

lemma never_bindP [never_intros]:
  "never_raises m p \<Longrightarrow> (\<And>x. never_raises m (f x)) \<Longrightarrow> never_raises m (bindP p f)"
  by (auto simp: never_raises_def bindP_def split: prod.splits sum.splits) (metis fst_conv)+

lemma never_returnP [never_intros]: "never_raises m (returnP x)"
  by (simp add: never_raises_def)

lemma never_raiseP [never_intros]: "e \<noteq> RuntimeError m \<Longrightarrow> never_raises m (raiseP e)"
  by (simp add: never_raises_def)

lemma never_liftP [never_intros]: "r \<noteq> Inl (RuntimeError m) \<Longrightarrow> never_raises m (liftP r)"
  by (simp add: never_raises_def)

lemma never_emit [never_intros]: "never_raises m (emit e)"
  by (simp add: never_raises_def)

lemma never_exists_path [never_intros]: "never_raises m (exists_path p)"
  by (simp add: never_raises_def)

lemma never_read_file [never_intros]: "never_raises m (read_file p)"
  by (simp add: never_raises_def read_file_def bindP_def split: option.splits)

lemma never_write_file [never_intros]: "never_raises m (write_file d p b)"
  by (simp add: never_raises_def write_file_def bindP_def)

lemma never_makedirs [never_intros]: "never_raises m (makedirs p)"
  by (simp add: never_raises_def makedirs_def bindP_def)

lemma never_load_image [never_intros]: "never_raises m (load_image w p)"
  unfolding load_image_def
  by (intro never_intros) (auto intro!: never_intros split: option.splits)

lemma never_if [never_intros]:
  "(c \<Longrightarrow> never_raises m p) \<Longrightarrow> (\<not> c \<Longrightarrow> never_raises m q) \<Longrightarrow>
     never_raises m (if c then p else q)"
  by simp

lemma never_case_prod [never_intros]:
  "(\<And>x y. never_raises m (f x y)) \<Longrightarrow> never_raises m (case_prod f p)"
  by (cases p) simp

lemma never_case_option [never_intros]:
  "(v = None \<Longrightarrow> never_raises m p) \<Longrightarrow> (\<And>x. v = Some x \<Longrightarrow> never_raises m (f x)) \<Longrightarrow>
     never_raises m (case v of None \<Rightarrow> p | Some x \<Rightarrow> f x)"
  by (cases v) simp_all

lemma bindE_neq:
  "r \<noteq> Inl e \<Longrightarrow> (\<And>x. f x \<noteq> Inl e) \<Longrightarrow> bindE r f \<noteq> Inl e"
  by (cases r) simp_all

lemma item_not_runtime [simp]: "item xs i \<noteq> Inl (RuntimeError m)"
  by (simp add: item_def)

lemma key_not_runtime [simp]: "key v \<noteq> Inl (RuntimeError m)"
  by (simp add: key_def split: option.splits)

lemma c_int_not_runtime [simp]: "c_int v \<noteq> Inl (RuntimeError m)"
  by (simp add: c_int_def)

lemma flip_sign_not_runtime [simp]: "flip_sign fl i \<noteq> Inl (RuntimeError m)"
  by (simp add: flip_sign_def bindE_neq)

lemma zeros_not_runtime [simp]: "zeros g \<noteq> Inl (RuntimeError m)"
  by (simp add: zeros_def)

lemma trk_geometry_not_runtime [simp]: "trk_geometry h \<noteq> Inl (RuntimeError m)"
  unfolding trk_geometry_def by (intro bindE_neq) simp_all

lemma tck_geometry_not_runtime [simp]: "tck_geometry h i \<noteq> Inl (RuntimeError m)"
  unfolding tck_geometry_def by (intro bindE_neq) simp_all

lemma native_arguments_not_runtime [simp]:
  "native_arguments a po fn g sh b ht iv mk pk tdi \<noteq> Inl (RuntimeError m)"
  unfolding native_arguments_def by (intro bindE_neq) simp_all

lemma boolean_index_not_runtime [simp]: "boolean_index xs ms \<noteq> Inl (RuntimeError m)"
  by (simp add: boolean_index_def)

lemma never_load_hash_table [never_intros]: "never_raises m (load_hash_table w n)"
  unfolding load_hash_table_def
  by (intro never_intros) (auto intro!: never_intros split: option.splits)

lemma never_load_header [never_intros]: "never_raises m (load_header w fn)"
  by (simp add: never_raises_def load_header_def bindP_def split: option.splits)

lemma never_geometry_warning [never_intros]: "never_raises m (geometry_warning c)"
  unfolding geometry_warning_def by (intro never_intros)

lemma never_load_mask [never_intros]: "never_raises m (load_mask w a g)"
  unfolding load_mask_def
  by (intro never_intros) simp_all

lemma never_call_native [never_intros]: "never_raises m (call_native w args)"
  by (simp add: never_raises_def call_native_def bindP_def split: prod.splits)

lemma never_generate_trk [never_intros]: "never_raises m (generate_trk w po fn ext)"
  unfolding generate_trk_def
  by (intro never_intros) simp_all

lemma never_save_maps [never_intros]: "never_raises m (save_maps w po g mk pk tdi)"
  unfolding save_maps_def Let_def
  by (intro never_intros)

lemma never_write_info [never_intros]: "never_raises m (write_info w a po fn)"
  unfolding write_info_def
  by (intro never_intros)

lemma never_tractogram_name:
  assumes "path_out a \<noteq> None \<or> m \<noteq> ''Path out not defined''"
    and "m \<noteq> ''Tractogram file not defined''"
  shows "never_raises m (tractogram_name a)"
  using assms unfolding tractogram_name_def
  by (auto intro!: never_intros split: option.splits)

lemma check_extension_not_runtime [simp]: "check_extension fn \<noteq> Inl (RuntimeError m)"
  by (simp add: check_extension_def Let_def)

lemma check_dims_not:
  "m \<noteq> ''The max dim size is 2^16 voxels'' \<Longrightarrow> check_dims x y z \<noteq> Inl (RuntimeError m)"
  by (simp add: check_dims_def)

lemma tck_reference_not:
  "m \<noteq> ''TCK files do not contain information about the geometry.'' \<Longrightarrow>
     tck_reference a \<noteq> Inl (RuntimeError m)"
  by (simp add: tck_reference_def split: option.splits)

lemma never_read_geometry:
  assumes "m \<noteq> ''The max dim size is 2^16 voxels''"
    and "m \<noteq> ''TCK files do not contain information about the geometry.''"
  shows "never_raises m (read_geometry w a ext h)"
  unfolding read_geometry_def
  by (intro never_intros) (simp_all add: check_dims_not tck_reference_not assms)

lemma never_load_tractogram:
  assumes "path_out a \<noteq> None \<or> m \<noteq> ''Path out not defined''"
    and "m \<noteq> ''Tractogram file not defined''"
    and "m \<noteq> ''The max dim size is 2^16 voxels''"
    and "m \<noteq> ''TCK files do not contain information about the geometry.''"
  shows "never_raises m (load_tractogram w a)"
  unfolding load_tractogram_def
  by (intro never_intros never_tractogram_name never_read_geometry assms) simp

lemma never_load_peaks:
  assumes "m \<noteq> ''PEAKS dataset must have 3*k volumes''"
    and "m \<noteq> ''vf_THR must be between 0 and 1''"
  shows "never_raises m (load_peaks w a g)"
  using assms unfolding load_peaks_def
  by (intro never_intros) simp_all

lemma gaussian_weight_not_runtime: "gaussian_weight sg r \<noteq> Inl (RuntimeError m)"
  unfolding gaussian_weight_def
  by (intro bindE_neq) (simp_all add: py_square_def py_divide_def split: float64.splits)

lemma blur_weights_not_runtime [simp]: "blur_weights sg rs \<noteq> Inl (RuntimeError m)"
proof (induction rs)
  case Nil
  show ?case by simp
next
  case (Cons r rs)
  show ?case
    by (simp only: blur_weights.simps)
      (intro bindE_neq; simp add: gaussian_weight_not_runtime Cons)
qed

lemma blur_params_not:
  "m \<noteq> ''number of radii and samples must match'' \<Longrightarrow>
     blur_params rs ss sg \<noteq> Inl (RuntimeError m)"
  by (simp add: blur_params_def int32_array_def bindE_neq del: blur_weights.simps)

lemma check_parameters_not:
  assumes "is_valid (ndirs a) \<or> m \<noteq> ''Unsupported value for ndirs.''"
    and "m \<noteq> ''fiber_shift must be a scalar or a vector with 3 elements''"
    and "m \<noteq> ''number of radii and samples must match''"
    and "m \<noteq> ''min_seg_len must be >= 0''"
  shows "check_parameters a \<noteq> Inl (RuntimeError m)"
  unfolding check_parameters_def
  by (intro bindE_neq)
    (use assms in \<open>auto simp: check_ndirs_def split_fiber_shift_def blur_params_not
      check_min_seg_len_def split: shift.splits\<close>)

lemma never_run_setup:
  assumes "is_valid (ndirs a) \<or> m \<noteq> ''Unsupported value for ndirs.''"
    and "m \<notin> set other_messages"
  shows "never_raises m (run_setup w a)"
proof (cases "path_out a")
  case None
  then show ?thesis by (simp add: run_setup_def never_raiseP)
next
  case (Some po)
  have o: "m \<noteq> ''fiber_shift must be a scalar or a vector with 3 elements''"
    "m \<noteq> ''number of radii and samples must match''"
    "m \<noteq> ''min_seg_len must be >= 0''"
    "m \<noteq> ''Tractogram file not defined''"
    "m \<noteq> ''The max dim size is 2^16 voxels''"
    "m \<noteq> ''TCK files do not contain information about the geometry.''"
    "m \<noteq> ''PEAKS dataset must have 3*k volumes''"
    "m \<noteq> ''vf_THR must be between 0 and 1''"
    using assms(2) unfolding other_messages_def by (simp_all only: list.set insert_iff de_Morgan_disj simp_thms)
  have p: "path_out a \<noteq> None \<or> m \<noteq> ''Path out not defined''"
    using Some by simp
  show ?thesis
    unfolding run_setup_def Some option.case
    by (intro never_intros never_load_tractogram never_load_peaks check_parameters_not
        assms(1) o p zeros_not_runtime)
qed

lemma never_run_convert: "never_raises m (run_convert w a c)"
  unfolding run_convert_def
  by (intro never_intros) simp_all

lemma never_run:
  assumes "is_valid (ndirs a) \<or> m \<noteq> ''Unsupported value for ndirs.''"
    and "m \<notin> set other_messages"
  shows "never_raises m (run w a)"
  unfolding run_def
  by (intro never_intros never_run_setup never_run_convert assms)

lemma run_never_path_out: "fst (run w a s) \<noteq> Inl (RuntimeError ''Path out not defined'')"
proof -
  have "never_raises ''Path out not defined'' (run w a)"
    by (rule never_run) (simp_all add: other_messages_def)
  then show ?thesis by (simp add: never_raises_def)
qed

lemma run_valid_ndirs:
  assumes "is_valid (ndirs a)"
  shows "fst (run w a s) \<noteq> Inl (RuntimeError ''Unsupported value for ndirs.'')"
proof -
  have "never_raises ''Unsupported value for ndirs.'' (run w a)"
    using assms by (intro never_run) (simp_all add: other_messages_def)
  then show ?thesis by (simp add: never_raises_def)
qed

lemma run_invalid_ndirs:
  assumes "path_out a = Some po" "\<not> is_valid (ndirs a)"
  shows "run w a s = (Inl (RuntimeError ''Unsupported value for ndirs.''), s)"
  using assms
  by (simp add: run_def run_setup_def check_parameters_def check_ndirs_def bindP_def)

lemma run_path_out_None:
  assumes "path_out a = None"
  shows "run w a s = (Inl TypeError, s)"
  using assms by (simp add: run_def run_setup_def bindP_def)

lemma is_valid_iff: "is_valid n \<longleftrightarrow> n \<in> (\<lambda>k. 500 * k) ` {1..20} \<union> {32761}"
proof -
  have "[500, 1000, 1500, 2000, 2500, 3000, 3500, 4000, 4500, 5000, 5500, 6000,
         6500, 7000, 7500, 8000, 8500, 9000, 9500, 10000, 32761 :: int] =
        map (\<lambda>k. 500 * k) [1..20] @ [32761]"
    by (simp add: upto.simps)
  then have "is_valid n \<longleftrightarrow> n \<in> set (map (\<lambda>k. 500 * k) [1..20] @ [32761])"
    by (simp only: is_valid_def)
  then show ?thesis
    by (simp only: set_append set_map set_upto list.set)
qed

subsection \<open>The weights of line 168\<close>

lemma above_tiny:
  assumes "1 / 2 ^ 1075 < (x :: real)"
  shows "0 < x"
proof -
  have "(0 :: real) < 1 / 2 ^ 1075"
    by simp
  from this assms show ?thesis
    by (rule less_trans)
qed



lemma py_twice_cases:
  assumes "0 < x"
  shows "2 ^ 1024 \<le> 2 * x \<and> py_twice x = PInf \<or>
     2 * x < 2 ^ 1024 \<and> py_twice x = Finite (2 * x) \<and> 2 * x \<noteq> 0"
proof -
  have "(0 :: real) < 2 ^ 1024"
    by (rule zero_less_power) simp
  with assms have n: "\<not> 2 * x \<le> - (2 ^ 1024)" "2 * x \<noteq> 0"
    by linarith+
  show ?thesis
  proof (cases "2 ^ 1024 \<le> 2 * x")
    case True
    then show ?thesis
      unfolding py_twice_def by (simp only: if_True simp_thms)
  next
    case False
    with n show ?thesis
      unfolding py_twice_def by (simp only: if_False simp_thms not_le [symmetric] not_False_eq_True)
  qed
qed

lemma py_square_regular:
  assumes "1 / 2 ^ 1075 < sigma ^ 2" "sigma ^ 2 < 2 ^ 1024"
  shows "py_square sigma = Inr (sigma ^ 2)"
proof -
  from assms have "\<not> 2 ^ 1024 \<le> sigma ^ 2" "\<not> sigma ^ 2 \<le> 1 / 2 ^ 1075"
    by (simp_all only: not_le)
  then show ?thesis
    unfolding py_square_def by (simp only: if_False)
qed

lemma py_square_underflow:
  assumes "sigma ^ 2 \<le> 1 / 2 ^ 1075"
  shows "py_square sigma = Inr 0"
proof -
  have "(1 :: real) / 2 ^ 1075 < 2 ^ 1024"
    by simp
  with assms have "\<not> 2 ^ 1024 \<le> sigma ^ 2"
    by linarith
  with assms show ?thesis
    unfolding py_square_def by (simp only: if_False if_True)
qed

lemma py_twice_zero: "py_twice 0 = Finite 0"
  by (simp add: py_twice_def)

lemma c_square_zero: "c_square 0 = Finite 0"
  by (simp add: c_square_def)


lemma gaussian_weight_zero:
  assumes "1 / 2 ^ 1075 < sigma ^ 2" "sigma ^ 2 < 2 ^ 1024"
  shows "gaussian_weight sigma 0 = Inr (Finite 1)"
proof -
  have 1: "py_square sigma = Inr (sigma ^ 2)"
    using assms by (rule py_square_regular)
  from py_twice_cases [OF above_tiny [OF assms(1)]]
  have "py_divide (Finite 0) (py_twice (sigma ^ 2)) = Inr (Finite 0)"
    by (auto simp: py_divide_def)
  then show ?thesis
    by (simp add: gaussian_weight_def 1 c_square_zero negate_def np_exp_def bindE_def)
qed

lemma gaussian_weight_underflow:
  assumes "sigma ^ 2 \<le> 1 / 2 ^ 1075"
  shows "gaussian_weight sigma r = Inl ZeroDivisionError"
  by (simp add: gaussian_weight_def py_square_underflow [OF assms] py_twice_zero py_divide_def
      bindE_def)









lemma blur_params_unit:
  "blur_params [] [] 1 =
     Inr \<lparr>nBlurRadii = 1, blurRadii = [0], blurSamples = [1], blurWeights = [Finite 1]\<rparr>"
proof -
  have "1 / 2 ^ 1075 < (1 :: real) ^ 2" "(1 :: real) ^ 2 < 2 ^ 1024"
    by simp_all
  from gaussian_weight_zero [OF this] show ?thesis
    by (simp add: blur_params_def int32_array_def bindE_def)
qed

lemma blur_params_zero: "blur_params [] [] 0 = Inl ZeroDivisionError"
proof -
  have "(0 :: real) ^ 2 \<le> 1 / 2 ^ 1075"
    by simp
  from gaussian_weight_underflow [OF this, of 0] show ?thesis
    by (simp add: blur_params_def int32_array_def bindE_def)
qed

lemmas example_defs = example_header_def example_tractogram_def example_kernel_def
  example_run_world_def example_args_def example_state_def example_image_def
  example_tck_header_def example_tck_world_def example_tck_args_def example_tck_state_def

lemmas run_defs = run_def run_setup_def run_convert_def check_parameters_def check_ndirs_def
  is_valid_def split_fiber_shift_def blur_params_unit blur_params_zero
  check_min_seg_len_def load_tractogram_def load_hash_table_def tractogram_name_def
  check_extension_def splitext_ext_def basename_def load_header_def read_geometry_def
  trk_geometry_def tck_reference_def tck_geometry_def check_dims_def load_mask_def zeros_def
  load_peaks_def write_info_def native_arguments_def c_int_def flip_sign_def call_native_def
  generate_trk_def boolean_index_def save_maps_def output_affine_def item_def key_def
  same_geometry_def geometry_warning_def makedirs_def write_file_def read_file_def
  load_image_def join_def dictionary_info_def

lemma example_run_ok: "fst (run (example_run_world 1) example_args example_state) = Inr ()"
  by (simp add: run_defs example_defs bindP_def Let_def dom_def)

text \<open>
  Claim C2. Lines 279-280 test \<^verbatim>\<open>Nx\<close> once and \<^verbatim>\<open>Nz\<close> twice: the extent \<^verbatim>\<open>Ny\<close> is
  never compared with \<open>2 ^ 16\<close>. A grid of 10 x 70000 x 10 voxels passes the test, and
  a run on a .tck tractogram whose reference image has that shape resolves this geometry
  without the geometry-overflow error.
\<close>

theorem C2_dims_check_misses_Ny:
  "check_dims 10 70000 10 = Inr () \<and>
   check_dims 70000 10 10 = Inl (RuntimeError ''The max dim size is 2^16 voxels'') \<and>
   check_dims 10 10 70000 = Inl (RuntimeError ''The max dim size is 2^16 voxels'') \<and>
   (check_dims Nx Ny Nz = Inr ()) = (Nx < 2 ^ 16 \<and> Nz < 2 ^ 16) \<and>
   map_sum id (\<lambda>(ht, fn, ext, g, iv). (g_Nx g, g_Ny g, g_Nz g))
     (fst (load_tractogram example_tck_world example_tck_args example_tck_state)) =
     Inr (10, 70000, 10)"
  by (simp add: run_defs example_defs bindP_def Let_def)

text \<open>
  Claim C3. For a call that gives the output path, \<^verbatim>\<open>run\<close> fails with the RuntimeError
  of line 122 exactly when \<^verbatim>\<open>ndirs\<close> is outside \<open>{500, 1000, ..., 10000} \<union> {32761}\<close>; the
  failure comes before any access to a file: the state, with its trace of accesses, is
  the one the run started from. In particular 500 is accepted and 501 is rejected.
\<close>

theorem C3_ndirs_validation:
  assumes "path_out a = Some po"
  shows "(fst (run w a s) = Inl (RuntimeError ''Unsupported value for ndirs.'') \<longleftrightarrow>
            ndirs a \<notin> (\<lambda>k. 500 * k) ` {1..20} \<union> {32761})
       \<and> (ndirs a \<notin> (\<lambda>k. 500 * k) ` {1..20} \<union> {32761} \<longrightarrow> snd (run w a s) = s)
       \<and> fst (run w (a\<lparr>ndirs := 500\<rparr>) s) \<noteq> Inl (RuntimeError ''Unsupported value for ndirs.'')
       \<and> run w (a\<lparr>ndirs := 501\<rparr>) s = (Inl (RuntimeError ''Unsupported value for ndirs.''), s)"
proof (intro conjI impI)
  show "fst (run w a s) = Inl (RuntimeError ''Unsupported value for ndirs.'') \<longleftrightarrow>
      ndirs a \<notin> (\<lambda>k. 500 * k) ` {1..20} \<union> {32761}"
    using run_invalid_ndirs [OF assms, of w s] run_valid_ndirs [of a w s]
    unfolding is_valid_iff [symmetric] by (cases "is_valid (ndirs a)") simp_all
next
  assume "ndirs a \<notin> (\<lambda>k. 500 * k) ` {1..20} \<union> {32761}"
  then show "snd (run w a s) = s"
    using run_invalid_ndirs [OF assms, of w s] unfolding is_valid_iff [symmetric] by simp
next
  show "fst (run w (a\<lparr>ndirs := 500\<rparr>) s) \<noteq> Inl (RuntimeError ''Unsupported value for ndirs.'')"
    by (rule run_valid_ndirs) (simp add: is_valid_def)
next
  show "run w (a\<lparr>ndirs := 501\<rparr>) s = (Inl (RuntimeError ''Unsupported value for ndirs.''), s)"
    by (rule run_invalid_ndirs [where po = po]) (simp_all add: assms is_valid_def)
qed

theorem C3_ndirs_validation_witness:
  "path_out example_args = Some ''out'' \<and>
   fst (run (example_run_world 1) (example_args\<lparr>ndirs := 500\<rparr>) example_state) \<noteq>
     Inl (RuntimeError ''Unsupported value for ndirs.'') \<and>
   run (example_run_world 1) (example_args\<lparr>ndirs := 501\<rparr>) example_state =
     (Inl (RuntimeError ''Unsupported value for ndirs.''), example_state)"
proof -
  have p: "path_out example_args = Some ''out''"
    by (simp add: example_args_def)
  from C3_ndirs_validation [OF p, of "example_run_world 1" example_state] p
  show ?thesis by blast
qed

text \<open>
  Claim C6. Line 101 appends a string to \<^verbatim>\<open>path_out\<close> before anything else, so a call
  without output path ends there with TypeError; the RuntimeError that lines 205-206
  raise for a missing output path is raised by no run at all. The other failure of the
  claim is raised as stated: with an output path and neither tractogram name, lines
  208-209 raise the RuntimeError for the missing tractogram, as in the example run, which
  has then written nothing.
\<close>

theorem C6_path_out_none:
  "run w (a\<lparr>path_out := None\<rparr>) s = (Inl TypeError, s) \<and>
   fst (run w a s) \<noteq> Inl (RuntimeError ''Path out not defined'') \<and>
   tractogram_name (a\<lparr>path_out := Some po, filename_tractogram := None, filename_trk := None\<rparr>) s =
     (Inl (RuntimeError ''Tractogram file not defined''), s) \<and>
   fst (run (example_run_world 1) (example_args\<lparr>filename_tractogram := None\<rparr>) example_state) =
     Inl (RuntimeError ''Tractogram file not defined'') \<and>
   files (snd (run (example_run_world 1) (example_args\<lparr>filename_tractogram := None\<rparr>)
     example_state)) = files example_state"
proof (intro conjI)
  show "run w (a\<lparr>path_out := None\<rparr>) s = (Inl TypeError, s)"
    by (rule run_path_out_None) simp
  show "fst (run w a s) \<noteq> Inl (RuntimeError ''Path out not defined'')"
    by (rule run_never_path_out)
  show "tractogram_name (a\<lparr>path_out := Some po, filename_tractogram := None,
      filename_trk := None\<rparr>) s = (Inl (RuntimeError ''Tractogram file not defined''), s)"
    by (simp add: tractogram_name_def)
  show "fst (run (example_run_world 1) (example_args\<lparr>filename_tractogram := None\<rparr>)
      example_state) = Inl (RuntimeError ''Tractogram file not defined'')"
    by (simp add: run_defs example_defs bindP_def Let_def)
  show "files (snd (run (example_run_world 1) (example_args\<lparr>filename_tractogram := None\<rparr>)
      example_state)) = files example_state"
    by (simp add: run_defs example_defs bindP_def Let_def)
qed




lemma reads_bindP [reads_intros]:
  assumes "reads_only p" "\<And>x. reads_only (f x)"
  shows "reads_only (bindP p f)"
  unfolding reads_only_def
proof
  fix s
  from assms(1) obtain t where p: "files (snd (p s)) = files s" "dirs (snd (p s)) = dirs s"
    "trace (snd (p s)) = trace s @ t" "list_all quiet t"
    unfolding reads_only_def by blast
  show "files (snd (bindP p f s)) = files s \<and> dirs (snd (bindP p f s)) = dirs s \<and>
      (\<exists>t. trace (snd (bindP p f s)) = trace s @ t \<and> list_all quiet t)"
  proof (cases "p s")
    case (Pair r s1)
    show ?thesis
    proof (cases r)
      case (Inl e)
      with Pair p show ?thesis by (auto simp: bindP_def)
    next
      case (Inr x)
      from assms(2) [of x] obtain t' where f: "files (snd (f x s1)) = files s1"
        "dirs (snd (f x s1)) = dirs s1" "trace (snd (f x s1)) = trace s1 @ t'" "list_all quiet t'"
        unfolding reads_only_def by blast
      have "trace (snd (f x s1)) = trace s @ (t @ t')" "list_all quiet (t @ t')"
        using p f Pair by simp_all
      with Pair Inr p f show ?thesis by (auto simp: bindP_def simp del: append_assoc)
    qed
  qed
qed

lemma reads_returnP [reads_intros]: "reads_only (returnP x)"
  by (simp add: reads_only_def)

lemma reads_raiseP [reads_intros]: "reads_only (raiseP e)"
  by (simp add: reads_only_def)

lemma reads_liftP [reads_intros]: "reads_only (liftP r)"
  by (simp add: reads_only_def)

lemma reads_emit: "quiet e \<Longrightarrow> reads_only (emit e)"
  by (simp add: reads_only_def)

lemma reads_exists_path [reads_intros]: "reads_only (exists_path p)"
  by (simp add: reads_only_def)

lemma reads_read_file [reads_intros]: "reads_only (read_file p)"
  by (simp add: reads_only_def read_file_def bindP_def quiet_def split: option.splits)

lemma reads_if [reads_intros]:
  "(c \<Longrightarrow> reads_only p) \<Longrightarrow> (\<not> c \<Longrightarrow> reads_only q) \<Longrightarrow> reads_only (if c then p else q)"
  by simp

lemma reads_case_prod [reads_intros]:
  "(\<And>x y. reads_only (f x y)) \<Longrightarrow> reads_only (case_prod f p)"
  by (cases p) simp

lemma reads_case_option [reads_intros]:
  "(v = None \<Longrightarrow> reads_only p) \<Longrightarrow> (\<And>x. v = Some x \<Longrightarrow> reads_only (f x)) \<Longrightarrow>
     reads_only (case v of None \<Rightarrow> p | Some x \<Rightarrow> f x)"
  by (cases v) simp_all

lemma reads_load_image [reads_intros]: "reads_only (load_image w p)"
  unfolding load_image_def by (intro reads_intros)

lemma reads_load_hash_table [reads_intros]: "reads_only (load_hash_table w n)"
  unfolding load_hash_table_def by (intro reads_intros reads_emit) (simp add: quiet_def)

lemma reads_tractogram_name [reads_intros]: "reads_only (tractogram_name a)"
  unfolding tractogram_name_def
  by (auto intro!: reads_intros reads_emit simp: quiet_def split: option.splits)

lemma reads_load_header [reads_intros]: "reads_only (load_header w fn)"
  by (simp add: reads_only_def load_header_def bindP_def quiet_def split: option.splits)

lemma reads_geometry_warning [reads_intros]: "reads_only (geometry_warning c)"
  unfolding geometry_warning_def by (intro reads_intros reads_emit) (simp add: quiet_def)

lemma reads_read_geometry [reads_intros]: "reads_only (read_geometry w a ext h)"
  unfolding read_geometry_def by (intro reads_intros)

lemma reads_load_tractogram [reads_intros]: "reads_only (load_tractogram w a)"
  unfolding load_tractogram_def by (intro reads_intros)

lemma reads_load_mask [reads_intros]: "reads_only (load_mask w a g)"
  unfolding load_mask_def by (intro reads_intros)

lemma reads_load_peaks [reads_intros]: "reads_only (load_peaks w a g)"
  unfolding load_peaks_def by (intro reads_intros)

lemma reads_run_setup: "reads_only (run_setup w a)"
  unfolding run_setup_def by (intro reads_intros)

lemma run_setup_fails:
  assumes "run_setup w a s = (Inl e, s')"
  shows "run w a s = (Inl e, s') \<and> files s' = files s \<and> dirs s' = dirs s \<and>
     (\<exists>t. trace s' = trace s @ t \<and> list_all quiet t)"
proof -
  have "run w a s = (Inl e, s')"
    using assms by (simp add: run_def bindP_def)
  moreover have "files (snd (run_setup w a s)) = files s \<and> dirs (snd (run_setup w a s)) = dirs s \<and>
      (\<exists>t. trace (snd (run_setup w a s)) = trace s @ t \<and> list_all quiet t)"
    using reads_run_setup [of w a] unfolding reads_only_def by blast
  ultimately show ?thesis using assms by simp
qed

lemma item_Inr: "i < length xs \<Longrightarrow> item xs i = Inr (xs ! i)"
  by (simp add: item_def)

lemma reads_files:
  assumes "reads_only p"
  shows "files (snd (p s)) = files s"
  using assms unfolding reads_only_def by blast

lemma load_peaks_bad:
  assumes pk: "filename_peaks a = Some fp"
    and img: "files s fp = Some b" "nibabel_load w fp b = Some nii" "4 \<le> length (shape nii)"
      "4 \<le> length (pixdim nii)" "3 \<le> length (flip_peaks a)"
    and bad: "shape nii ! 3 mod 3 \<noteq> 0 \<or> vf_THR a < 0 \<or> vf_THR a > 1"
  shows "fst (load_peaks w a g s) =
     Inl (RuntimeError (if shape nii ! 3 mod 3 \<noteq> 0 then ''PEAKS dataset must have 3*k volumes''
                        else ''vf_THR must be between 0 and 1''))"
proof -
  have i: "item (shape nii) 0 = Inr (shape nii ! 0)" "item (shape nii) 1 = Inr (shape nii ! 1)"
    "item (shape nii) 2 = Inr (shape nii ! 2)" "item (shape nii) 3 = Inr (shape nii ! 3)"
    "item (pixdim nii) 1 = Inr (pixdim nii ! 1)" "item (pixdim nii) 2 = Inr (pixdim nii ! 2)"
    "item (pixdim nii) 3 = Inr (pixdim nii ! 3)"
    "item (flip_peaks a) 0 = Inr (flip_peaks a ! 0)" "item (flip_peaks a) 1 = Inr (flip_peaks a ! 1)"
    "item (flip_peaks a) 2 = Inr (flip_peaks a ! 2)"
    "item (shape nii) (Suc 0) = Inr (shape nii ! 1)"
    "item (pixdim nii) (Suc 0) = Inr (pixdim nii ! 1)"
    "item (flip_peaks a) (Suc 0) = Inr (flip_peaks a ! 1)"
    using img by (auto simp: item_def)
  show ?thesis
    using pk img(1,2) bad
    by (auto simp: load_peaks_def i bindP_def load_image_Some geometry_warning_def)
qed

text \<open>
  Claim C5 as stated, for a run without peaks. The test of \<^verbatim>\<open>vf_THR\<close> (lines 338-339) is
  inside the branch of line 324 that loads the peaks: with no peaks file,
  \<^verbatim>\<open>vf_THR = 5\<close> is accepted and the run ends normally.
\<close>

theorem C5_vf_THR_unchecked_without_peaks:
  "fst (run (example_run_world 1) (example_args\<lparr>vf_THR := 5\<rparr>) example_state) = Inr () \<and>
   filename_peaks (example_args\<lparr>vf_THR := 5\<rparr>) = None \<and>
   vf_THR (example_args\<lparr>vf_THR := 5\<rparr>) > 1"
  by (simp add: run_defs example_defs bindP_def Let_def dom_def)

text \<open>
  Claim C5, amended. When a peaks file is given and the run comes to load it (the
  parameters are valid, the tractogram and the mask are loaded), a peaks volume whose
  last dimension is not a multiple of 3, or a \<^verbatim>\<open>vf_THR\<close> outside \<open>[0, 1]\<close>, makes the run
  fail with the RuntimeError of line 337 or of line 339. The failure comes before the
  output directory is touched and before the native kernel is called: files and
  directories are as the run found them, and the trace has only grown by messages and
  reads.
\<close>

theorem C5_peaks_checks:
  assumes po: "path_out a = Some po" and pk: "filename_peaks a = Some fp"
    and reach: "check_parameters a = Inr (sh, bl)"
      "load_tractogram w a s = (Inr (ht, fn, ext, g, iv), s1)"
      "load_mask w a g s1 = (Inr mk, s2)" "zeros g = Inr tdi"
    and img: "files s fp = Some b" "nibabel_load w fp b = Some nii" "4 \<le> length (shape nii)"
      "4 \<le> length (pixdim nii)" "3 \<le> length (flip_peaks a)"
    and bad: "shape nii ! 3 mod 3 \<noteq> 0 \<or> vf_THR a < 0 \<or> vf_THR a > 1"
  shows "\<exists>s'. run w a s =
        (Inl (RuntimeError (if shape nii ! 3 mod 3 \<noteq> 0 then ''PEAKS dataset must have 3*k volumes''
                            else ''vf_THR must be between 0 and 1'')), s') \<and>
      files s' = files s \<and> dirs s' = dirs s \<and>
      (\<exists>t. trace s' = trace s @ t \<and> list_all quiet t)"
proof -
  have "files s1 = files s"
    using reads_files [OF reads_load_tractogram, of w a s] reach(2) by simp
  moreover have "files s2 = files s1"
    using reads_files [OF reads_load_mask, of w a g s1] reach(3) by simp
  ultimately have "files s2 fp = Some b"
    using img(1) by simp
  define E where "E = RuntimeError (if shape nii ! 3 mod 3 \<noteq> 0
      then ''PEAKS dataset must have 3*k volumes'' else ''vf_THR must be between 0 and 1'')"
  from load_peaks_bad [OF pk \<open>files s2 fp = Some b\<close> img(2-5) bad, of g]
  obtain s3 where 3: "load_peaks w a g s2 = (Inl E, s3)"
    unfolding E_def by (cases "load_peaks w a g s2") simp
  have c: "liftP (check_parameters a) s = (Inr (sh, bl), s)"
    by (simp add: reach)
  have z: "liftP (zeros g) s2 = (Inr tdi, s2)"
    by (simp add: reach)
  note b = bindP_Inr [where m = "liftP (check_parameters a)" and s = s, OF c]
    bindP_Inr [where m = "load_tractogram w a" and s = s, OF reach(2)]
    bindP_Inr [where m = "load_mask w a g" and s = s1, OF reach(3)]
    bindP_Inr [where m = "liftP (zeros g)" and s = s2, OF z]
    bindP_Inl [where m = "load_peaks w a g" and s = s2, OF 3]
  have "run_setup w a s = (Inl E, s3)"
    unfolding run_setup_def po option.case
    by (simp only: b prod.case)
  from run_setup_fails [OF this] show ?thesis
    unfolding E_def by blast
qed

theorem C5_peaks_checks_witness:
  "path_out example_peaks_args = Some ''out'' \<and>
   filename_peaks example_peaks_args = Some ''peaks.nii'' \<and>
   vf_THR example_peaks_args > 1 \<and>
   (\<exists>s'. run example_peaks_world example_peaks_args example_peaks_state =
        (Inl (RuntimeError ''vf_THR must be between 0 and 1''), s') \<and>
      files s' = files example_peaks_state \<and> dirs s' = dirs example_peaks_state)"
proof -
  have h: "path_out example_peaks_args = Some ''out''"
    "filename_peaks example_peaks_args = Some ''peaks.nii''"
    "check_parameters example_peaks_args =
       Inr ((0, 0, 0), \<lparr>nBlurRadii = 1, blurRadii = [0], blurSamples = [1], blurWeights = [Finite 1]\<rparr>)"
    "load_tractogram example_peaks_world example_peaks_args example_peaks_state =
       (Inr ([], ''a.trk'', ''.trk'',
          \<lparr>g_Nx = 2, g_Ny = 2, g_Nz = 2, g_Px = 1, g_Py = 1, g_Pz = 1, g_data_offset = 1000,
            g_n_count = 2, g_n_scalars = 0, g_n_properties = 0\<rparr>, None),
        example_peaks_state\<lparr>trace := [LoadHashTable 32761, ReadFile ''a.trk'']\<rparr>)"
    "load_mask example_peaks_world example_peaks_args
       \<lparr>g_Nx = 2, g_Ny = 2, g_Nz = 2, g_Px = 1, g_Py = 1, g_Pz = 1, g_data_offset = 1000,
         g_n_count = 2, g_n_scalars = 0, g_n_properties = 0\<rparr>
       (example_peaks_state\<lparr>trace := [LoadHashTable 32761, ReadFile ''a.trk'']\<rparr>) =
       (Inr None, example_peaks_state\<lparr>trace := [LoadHashTable 32761, ReadFile ''a.trk'']\<rparr>)"
    "zeros \<lparr>g_Nx = 2, g_Ny = 2, g_Nz = 2, g_Px = 1, g_Py = 1, g_Pz = 1, g_data_offset = 1000,
         g_n_count = 2, g_n_scalars = 0, g_n_properties = 0\<rparr> = Inr (replicate 8 0)"
    "files example_peaks_state ''peaks.nii'' = Some []"
    "nibabel_load example_peaks_world ''peaks.nii'' [] = Some (example_image\<lparr>shape := [2, 2, 2, 3]\<rparr>)"
    "4 \<le> length (shape (example_image\<lparr>shape := [2, 2, 2, 3]\<rparr>))"
    "4 \<le> length (pixdim (example_image\<lparr>shape := [2, 2, 2, 3]\<rparr>))"
    "3 \<le> length (flip_peaks example_peaks_args)"
    "shape (example_image\<lparr>shape := [2, 2, 2, 3]\<rparr>) ! 3 mod 3 \<noteq> 0 \<or>
       vf_THR example_peaks_args < 0 \<or> vf_THR example_peaks_args > 1"
    "vf_THR example_peaks_args > 1"
    by (simp_all add: run_defs example_defs example_peaks_world_def example_peaks_args_def
        example_peaks_state_def bindP_def Let_def)
  from C5_peaks_checks [OF h(1-12)] h(1,2,13) show ?thesis
    by simp blast
qed

lemma bindP_liftP_Inr: "r = Inr x \<Longrightarrow> bindP (liftP r) f s = f x s"
  by (simp add: bindP_def)

lemma native_arguments_paths:
  assumes "native_arguments a po fn g sh b ht iv mk pk tdi = Inr args"
  shows "c_filename_tractogram args = fn \<and> c_path_out args = po"
  using assms by (auto simp: native_arguments_def bindE_def split: sum.splits)

lemma call_native_eq:
  assumes "trk2dictionary w args (files s, dirs s) = (ret, tdi, fs, ds)"
  shows "call_native w args s =
     (Inr (ret, tdi),
      s\<lparr>trace := trace s @ [NativeCall (c_filename_tractogram args) (c_path_out args)],
        files := fs, dirs := ds\<rparr>)"
  using assms by (simp add: call_native_def bindP_def)

lemma write_info_success:
  assumes "write_info w a po fn s = (Inr (), s')"
  shows "files s' = (files s)(fn \<mapsto> pickle_dump w (dictionary_info a)) \<and> po \<in> dirs s' \<and>
     dirs s' = (if po \<in> dom (files s) \<or> po \<in> dirs s then dirs s else insert po (dirs s))"
  using assms
  by (auto simp: write_info_def bindP_def makedirs_def write_file_def split: if_splits)

text \<open>
  Claim C9 as stated. When the native kernel reports a failure, the run ends normally
  with the metadata
  record, written before the call, still in the output directory.
\<close>

theorem C9_metadata_persists:
  "fst (run (example_run_world 0) example_args example_state) = Inr () \<and>
   files example_state ''out/dictionary_info.pickle'' = None \<and>
   files (snd (run (example_run_world 0) example_args example_state))
     ''out/dictionary_info.pickle'' = Some [] \<and>
   Print ''[ DICTIONARY not generated ]'' \<in>
     set (trace (snd (run (example_run_world 0) example_args example_state)))"
  by (simp add: run_defs example_defs bindP_def Let_def dom_def)

text \<open>
  Claim C9, amended. When the native kernel returns 0, the run prints the notice that
  the dictionary was not generated and returns normally, without raising. It has written
  the metadata record into the output directory before the call, and after the call it
  writes nothing and removes nothing: the files and directories it leaves are exactly
  those the native kernel left, from a file system that held the metadata record.
\<close>

theorem C9_failed_conversion:
  assumes st: "run_setup w a s = (Inr c, s1)"
    and wi: "write_info w a (s_path_out c) (s_filename c) s1 = (Inr (), s2)"
    and ar: "native_arguments a (s_path_out c) (s_tractogram c) (s_geometry c) (s_shifts c)
        (s_blur c) (s_htable c) (s_ArrayInvM c) (s_mask c) (s_peaks c) (s_tdi c) = Inr args"
    and fl: "trk2dictionary w args (files s2, dirs s2) = (0, tdi, fs, ds)"
  shows "\<exists>s'. run w a s = (Inr (), s') \<and> files s' = fs \<and> dirs s' = ds \<and>
      trace s' = trace s2 @ [NativeCall (s_tractogram c) (s_path_out c),
                             Print ''[ DICTIONARY not generated ]''] \<and>
      files s2 = (files s)(s_filename c \<mapsto> pickle_dump w (dictionary_info a))"
proof -
  have f1: "files s1 = files s"
    using reads_files [OF reads_run_setup, of w a s] st by simp
  have n: "call_native w args s2 =
      (Inr (0, tdi), s2\<lparr>trace := trace s2 @ [NativeCall (s_tractogram c) (s_path_out c)],
         files := fs, dirs := ds\<rparr>)"
    using call_native_eq [OF fl] native_arguments_paths [OF ar] by simp
  have l: "liftP (native_arguments a (s_path_out c) (s_tractogram c) (s_geometry c) (s_shifts c)
        (s_blur c) (s_htable c) (s_ArrayInvM c) (s_mask c) (s_peaks c) (s_tdi c)) s2 =
      (Inr args, s2)"
    using ar by simp
  note b = bindP_Inr [where m = "run_setup w a" and s = s, OF st]
    bindP_Inr [where m = "write_info w a (s_path_out c) (s_filename c)" and s = s1, OF wi]
    bindP_liftP_Inr [OF ar]
    bindP_Inr [where m = "call_native w args" and s = s2, OF n]
  have "run w a s = (Inr (),
      s2\<lparr>trace := trace s2 @ [NativeCall (s_tractogram c) (s_path_out c)],
         files := fs, dirs := ds,
         trace := trace s2 @ [NativeCall (s_tractogram c) (s_path_out c)] @
                  [Print ''[ DICTIONARY not generated ]'']\<rparr>)"
    unfolding run_def run_convert_def
    by (simp only: b prod.case) (simp add: emit_def)
  then show ?thesis
    using write_info_success [OF wi] f1 by simp
qed

lemma run_setup_fields:
  assumes "run_setup w a s = (Inr c, s1)"
  shows "path_out a = Some (s_path_out c) \<and> s_filename c = s_path_out c @ ''/dictionary_info.pickle''"
  using assms
  apply (cases "path_out a")
   apply (simp add: run_setup_def)
  apply (simp add: run_setup_def)
  apply (elim bindP_InrD [THEN exE] | clarsimp split: prod.splits sum.splits)+
  done


lemma prog_result: "\<not> sum.isl (fst (p s)) \<Longrightarrow> p s = (Inr (projr (fst (p s))), snd (p s))"
  by (cases "p s") (auto simp: sum.collapse(2))

theorem C9_failed_conversion_witness:
  "\<exists>c s1 s2 args tdi fs ds s'.
     run_setup (example_run_world 0) example_args example_state = (Inr c, s1) \<and>
     write_info (example_run_world 0) example_args (s_path_out c) (s_filename c) s1 = (Inr (), s2) \<and>
     native_arguments example_args (s_path_out c) (s_tractogram c) (s_geometry c) (s_shifts c)
        (s_blur c) (s_htable c) (s_ArrayInvM c) (s_mask c) (s_peaks c) (s_tdi c) = Inr args \<and>
     trk2dictionary (example_run_world 0) args (files s2, dirs s2) = (0, tdi, fs, ds) \<and>
     run (example_run_world 0) example_args example_state = (Inr (), s') \<and>
     files s' = fs \<and> dirs s' = ds \<and>
     files s2 = (files example_state)(s_filename c \<mapsto>
       pickle_dump (example_run_world 0) (dictionary_info example_args))"
proof -
  define c where "c = projr (fst (run_setup (example_run_world 0) example_args example_state))"
  define s1 where "s1 = snd (run_setup (example_run_world 0) example_args example_state)"
  define s2 where "s2 = snd (write_info (example_run_world 0) example_args (s_path_out c)
      (s_filename c) s1)"
  define args where "args = projr (native_arguments example_args (s_path_out c) (s_tractogram c)
      (s_geometry c) (s_shifts c) (s_blur c) (s_htable c) (s_ArrayInvM c) (s_mask c) (s_peaks c)
      (s_tdi c))"
  have "\<not> sum.isl (fst (run_setup (example_run_world 0) example_args example_state))"
    by (simp add: run_defs example_defs bindP_def Let_def)
  then have 1: "run_setup (example_run_world 0) example_args example_state = (Inr c, s1)"
    unfolding c_def s1_def by (rule prog_result)
  have c: "c = \<lparr>s_path_out = ''out'', s_filename = ''out/dictionary_info.pickle'',
      s_shifts = (0, 0, 0),
      s_blur = \<lparr>nBlurRadii = 1, blurRadii = [0], blurSamples = [1], blurWeights = [Finite 1]\<rparr>,
      s_htable = [], s_tractogram = ''a.trk'', s_extension = ''.trk'',
      s_geometry = \<lparr>g_Nx = 2, g_Ny = 2, g_Nz = 2, g_Px = 1, g_Py = 1, g_Pz = 1,
        g_data_offset = 1000, g_n_count = 2, g_n_scalars = 0, g_n_properties = 0\<rparr>,
      s_ArrayInvM = None, s_mask = None, s_tdi = replicate 8 0, s_peaks = None\<rparr>"
    unfolding c_def by (simp add: run_defs example_defs bindP_def Let_def)
  have f1: "files s1 = files example_state" "dirs s1 = {}"
    unfolding s1_def by (simp_all add: run_defs example_defs bindP_def Let_def)
  have "fst (write_info (example_run_world 0) example_args (s_path_out c) (s_filename c) s1) =
      Inr ()"
    by (simp add: c write_info_def bindP_def makedirs_def write_file_def f1 dom_def
        example_state_def)
  then have 2: "write_info (example_run_world 0) example_args (s_path_out c) (s_filename c) s1 =
      (Inr (), s2)"
    unfolding s2_def by (simp add: prod_eq_iff)
  have "\<not> sum.isl (native_arguments example_args (s_path_out c) (s_tractogram c)
      (s_geometry c) (s_shifts c) (s_blur c) (s_htable c) (s_ArrayInvM c) (s_mask c) (s_peaks c)
      (s_tdi c))"
    by (simp add: c native_arguments_def c_int_def flip_sign_def item_def example_args_def)
  then have 3: "native_arguments example_args (s_path_out c) (s_tractogram c)
      (s_geometry c) (s_shifts c) (s_blur c) (s_htable c) (s_ArrayInvM c) (s_mask c) (s_peaks c)
      (s_tdi c) = Inr args"
    unfolding args_def by (simp add: sum.collapse(2))
  obtain tdi fs ds where 4:
    "trk2dictionary (example_run_world 0) args (files s2, dirs s2) = (0, tdi, fs, ds)"
    by (simp add: example_run_world_def example_kernel_def)
  from C9_failed_conversion [OF 1 2 3 4] 1 2 3 4 show ?thesis
    by blast
qed

lemma boolean_index_nth:
  assumes "length xs = length ks"
  shows "map fst (filter snd (zip xs (map P ks))) =
     map ((!) xs) (filter (\<lambda>i. P (ks ! i)) [0..<length ks])"
  using assms
proof (induction xs ks rule: list_induct2)
  case Nil
  show ?case by simp
next
  case (Cons x xs k ks)
  have u: "[0..<length (k # ks)] = 0 # map Suc [0..<length ks]"
    by (simp only: length_Cons map_Suc_upt upt_conv_Cons [OF zero_less_Suc])
  show ?case
    unfolding u using Cons.IH by (simp add: filter_map comp_def)
qed

lemma length_filter_nth:
  "length (filter (\<lambda>i. P (ks ! i)) [0..<length ks]) = length (filter P ks)"
proof -
  have "length (filter P ks) = length (filter P (map ((!) ks) [0..<length ks]))"
    by (simp add: map_nth)
  also have "\<dots> = length (filter (\<lambda>i. P (ks ! i)) [0..<length ks])"
    by (simp only: filter_map length_map comp_def)
  finally show ?thesis by simp
qed

lemma generate_trk_success:
  assumes "generate_trk w po fn ext s = (Inr (), s')"
  shows "\<exists>b fib kept. files s fn = Some b \<and> streamlines_load w fn b = Some fib \<and>
     files s (join po ''dictionary_TRK_kept.dict'') = Some kept \<and>
     length kept = length (streamlines fib) \<and>
     files s' = (files s)(join po (''dictionary_TRK_fibers'' @ ext) \<mapsto>
       streamlines_save w
         \<lparr>hdr = (hdr fib)\<lparr>count := Some (int (length (filter (\<lambda>k. k \<noteq> 0) kept))),
                           nb_streamlines := Some (int (length (filter (\<lambda>k. k \<noteq> 0) kept)))\<rparr>,
          streamlines =
            map ((!) (streamlines fib)) (filter (\<lambda>i. kept ! i \<noteq> 0) [0..<length kept])\<rparr>
         (join po (''dictionary_TRK_fibers'' @ ext)))"
proof -
  from assms obtain b fib kept where
    1: "files s fn = Some b" "streamlines_load w fn b = Some fib"
      "files s (join po ''dictionary_TRK_kept.dict'') = Some kept"
      "length kept = length (streamlines fib)"
    and 2: "files s' = (files s)(join po (''dictionary_TRK_fibers'' @ ext) \<mapsto>
       streamlines_save w
         \<lparr>hdr = (hdr fib)\<lparr>count := Some (int (length (map fst (filter snd
              (zip (streamlines fib) (map (\<lambda>k. k \<noteq> 0) kept)))))),
            nb_streamlines := Some (int (length (map fst (filter snd
              (zip (streamlines fib) (map (\<lambda>k. k \<noteq> 0) kept))))))\<rparr>,
          streamlines = map fst (filter snd (zip (streamlines fib) (map (\<lambda>k. k \<noteq> 0) kept)))\<rparr>
         (join po (''dictionary_TRK_fibers'' @ ext)))"
    by (auto simp: generate_trk_def bindP_def read_file_def write_file_def boolean_index_def
        split: option.splits if_splits)
  have e: "map fst (filter snd (zip (streamlines fib) (map (\<lambda>k. k \<noteq> 0) kept))) =
      map ((!) (streamlines fib)) (filter (\<lambda>i. kept ! i \<noteq> 0) [0..<length kept])"
    using 1(4) boolean_index_nth [of "streamlines fib" kept "\<lambda>k. k \<noteq> 0"] by simp
  have l: "length (map ((!) (streamlines fib)) (filter (\<lambda>i. kept ! i \<noteq> 0) [0..<length kept])) =
      length (filter (\<lambda>k. k \<noteq> 0) kept)"
    using length_filter_nth [of "\<lambda>k. k \<noteq> 0" kept] by simp
  show ?thesis
    using 1 2 unfolding e l by blast
qed

lemma save_maps_frame:
  assumes "save_maps w po g mk pk tdi s = (Inr (), s')"
    and "p \<noteq> join po ''dictionary_tdi.nii.gz''" "p \<noteq> join po ''dictionary_mask.nii.gz''"
  shows "files s' p = files s p"
  using assms
  by (auto simp: save_maps_def Let_def bindP_def write_file_def split: if_splits)

lemma fibers_path:
  "join po (''dictionary_TRK_fibers'' @ ext) \<noteq> join po ''dictionary_tdi.nii.gz''"
  "join po (''dictionary_TRK_fibers'' @ ext) \<noteq> join po ''dictionary_mask.nii.gz''"
  by simp_all

text \<open>
  Claim C8. When \<^verbatim>\<open>gen_trk\<close> is true and the conversion succeeds (the native kernel
  returns a nonzero status and the run ends normally), the run has read the tractogram
  and the flags of \<^verbatim>\<open>dictionary_TRK_kept.dict\<close> from the file system the native kernel
  left, one flag per streamline, and the file \<^verbatim>\<open>dictionary_TRK_fibers\<close> it leaves in the
  output directory is what the streamline library saves for: the streamlines whose flag
  is nonzero, in their original order, under the header of the tractogram with both
  counts set to the number of nonzero flags.
\<close>

theorem C8_filtered_tractogram:
  assumes st: "run_setup w a s = (Inr c, s1)"
    and wi: "write_info w a (s_path_out c) (s_filename c) s1 = (Inr (), s2)"
    and ar: "native_arguments a (s_path_out c) (s_tractogram c) (s_geometry c) (s_shifts c)
        (s_blur c) (s_htable c) (s_ArrayInvM c) (s_mask c) (s_peaks c) (s_tdi c) = Inr args"
    and nat: "trk2dictionary w args (files s2, dirs s2) = (ret, tdi, fs, ds)"
    and ok: "ret \<noteq> 0" and gen: "gen_trk a"
    and fin: "run w a s = (Inr (), s')"
  shows "\<exists>b fib kept. fs (s_tractogram c) = Some b \<and>
     streamlines_load w (s_tractogram c) b = Some fib \<and>
     fs (join (s_path_out c) ''dictionary_TRK_kept.dict'') = Some kept \<and>
     length kept = length (streamlines fib) \<and>
     files s' (join (s_path_out c) (''dictionary_TRK_fibers'' @ s_extension c)) =
       Some (streamlines_save w
         \<lparr>hdr = (hdr fib)\<lparr>count := Some (int (length (filter (\<lambda>k. k \<noteq> 0) kept))),
                           nb_streamlines := Some (int (length (filter (\<lambda>k. k \<noteq> 0) kept)))\<rparr>,
          streamlines =
            map ((!) (streamlines fib)) (filter (\<lambda>i. kept ! i \<noteq> 0) [0..<length kept])\<rparr>
         (join (s_path_out c) (''dictionary_TRK_fibers'' @ s_extension c)))"
proof -
  define s3 where "s3 = s2\<lparr>trace := trace s2 @ [NativeCall (s_tractogram c) (s_path_out c)],
         files := fs, dirs := ds\<rparr>"
  have n: "call_native w args s2 = (Inr (ret, tdi), s3)"
    using call_native_eq [OF nat] native_arguments_paths [OF ar] by (simp add: s3_def)
  note b = bindP_Inr [where m = "run_setup w a" and s = s, OF st]
    bindP_Inr [where m = "write_info w a (s_path_out c) (s_filename c)" and s = s1, OF wi]
    bindP_liftP_Inr [OF ar]
    bindP_Inr [where m = "call_native w args" and s = s2, OF n]
  have "run w a s =
      bindP (generate_trk w (s_path_out c) (s_tractogram c) (s_extension c))
        (\<lambda>_. save_maps w (s_path_out c) (s_geometry c) (s_mask c) (s_peaks c) tdi) s3"
    unfolding run_def run_convert_def
    by (simp only: b prod.case ok gen if_True if_False)
  with fin obtain s4 where
    4: "generate_trk w (s_path_out c) (s_tractogram c) (s_extension c) s3 = (Inr (), s4)"
    and 5: "save_maps w (s_path_out c) (s_geometry c) (s_mask c) (s_peaks c) tdi s4 = (Inr (), s')"
    using bindP_InrD by fastforce
  have f3: "files s3 = fs"
    by (simp add: s3_def)
  from generate_trk_success [OF 4] obtain b fib kept where
    g: "fs (s_tractogram c) = Some b" "streamlines_load w (s_tractogram c) b = Some fib"
      "fs (join (s_path_out c) ''dictionary_TRK_kept.dict'') = Some kept"
      "length kept = length (streamlines fib)"
    and f4: "files s4 = fs(join (s_path_out c) (''dictionary_TRK_fibers'' @ s_extension c) \<mapsto>
       streamlines_save w
         \<lparr>hdr = (hdr fib)\<lparr>count := Some (int (length (filter (\<lambda>k. k \<noteq> 0) kept))),
                           nb_streamlines := Some (int (length (filter (\<lambda>k. k \<noteq> 0) kept)))\<rparr>,
          streamlines =
            map ((!) (streamlines fib)) (filter (\<lambda>i. kept ! i \<noteq> 0) [0..<length kept])\<rparr>
         (join (s_path_out c) (''dictionary_TRK_fibers'' @ s_extension c)))"
    unfolding f3 by blast
  have "files s' (join (s_path_out c) (''dictionary_TRK_fibers'' @ s_extension c)) =
      files s4 (join (s_path_out c) (''dictionary_TRK_fibers'' @ s_extension c))"
    by (rule save_maps_frame [OF 5 fibers_path])
  then have "files s' (join (s_path_out c) (''dictionary_TRK_fibers'' @ s_extension c)) =
       Some (streamlines_save w
         \<lparr>hdr = (hdr fib)\<lparr>count := Some (int (length (filter (\<lambda>k. k \<noteq> 0) kept))),
                           nb_streamlines := Some (int (length (filter (\<lambda>k. k \<noteq> 0) kept)))\<rparr>,
          streamlines =
            map ((!) (streamlines fib)) (filter (\<lambda>i. kept ! i \<noteq> 0) [0..<length kept])\<rparr>
         (join (s_path_out c) (''dictionary_TRK_fibers'' @ s_extension c)))"
    unfolding f4 by (simp only: fun_upd_same)
  with g show ?thesis
    by (intro exI [of _ b] exI [of _ fib] exI [of _ kept] conjI)
qed

theorem C8_filtered_tractogram_witness:
  "\<exists>c s1 s2 args ret tdi fs ds s'.
     run_setup (example_run_world 1) example_args example_state = (Inr c, s1) \<and>
     write_info (example_run_world 1) example_args (s_path_out c) (s_filename c) s1 = (Inr (), s2) \<and>
     native_arguments example_args (s_path_out c) (s_tractogram c) (s_geometry c) (s_shifts c)
        (s_blur c) (s_htable c) (s_ArrayInvM c) (s_mask c) (s_peaks c) (s_tdi c) = Inr args \<and>
     trk2dictionary (example_run_world 1) args (files s2, dirs s2) = (ret, tdi, fs, ds) \<and>
     ret \<noteq> 0 \<and> gen_trk example_args \<and>
     run (example_run_world 1) example_args example_state = (Inr (), s') \<and>
     (\<exists>b fib kept. fs (s_tractogram c) = Some b \<and>
       streamlines_load (example_run_world 1) (s_tractogram c) b = Some fib \<and>
       fs (join (s_path_out c) ''dictionary_TRK_kept.dict'') = Some kept \<and>
       length kept = length (streamlines fib) \<and>
       files s' (join (s_path_out c) (''dictionary_TRK_fibers'' @ s_extension c)) =
         Some (streamlines_save (example_run_world 1)
           \<lparr>hdr = (hdr fib)\<lparr>count := Some (int (length (filter (\<lambda>k. k \<noteq> 0) kept))),
                             nb_streamlines := Some (int (length (filter (\<lambda>k. k \<noteq> 0) kept)))\<rparr>,
            streamlines =
              map ((!) (streamlines fib)) (filter (\<lambda>i. kept ! i \<noteq> 0) [0..<length kept])\<rparr>
           (join (s_path_out c) (''dictionary_TRK_fibers'' @ s_extension c))))"
proof -
  define c where "c = projr (fst (run_setup (example_run_world 1) example_args example_state))"
  define s1 where "s1 = snd (run_setup (example_run_world 1) example_args example_state)"
  define s2 where "s2 = snd (write_info (example_run_world 1) example_args (s_path_out c)
      (s_filename c) s1)"
  define args where "args = projr (native_arguments example_args (s_path_out c) (s_tractogram c)
      (s_geometry c) (s_shifts c) (s_blur c) (s_htable c) (s_ArrayInvM c) (s_mask c) (s_peaks c)
      (s_tdi c))"
  define s' where "s' = snd (run (example_run_world 1) example_args example_state)"
  have "\<not> sum.isl (fst (run_setup (example_run_world 1) example_args example_state))"
    by (simp add: run_defs example_defs bindP_def Let_def)
  then have 1: "run_setup (example_run_world 1) example_args example_state = (Inr c, s1)"
    unfolding c_def s1_def by (rule prog_result)
  have c: "c = \<lparr>s_path_out = ''out'', s_filename = ''out/dictionary_info.pickle'',
      s_shifts = (0, 0, 0),
      s_blur = \<lparr>nBlurRadii = 1, blurRadii = [0], blurSamples = [1], blurWeights = [Finite 1]\<rparr>,
      s_htable = [], s_tractogram = ''a.trk'', s_extension = ''.trk'',
      s_geometry = \<lparr>g_Nx = 2, g_Ny = 2, g_Nz = 2, g_Px = 1, g_Py = 1, g_Pz = 1,
        g_data_offset = 1000, g_n_count = 2, g_n_scalars = 0, g_n_properties = 0\<rparr>,
      s_ArrayInvM = None, s_mask = None, s_tdi = replicate 8 0, s_peaks = None\<rparr>"
    unfolding c_def by (simp add: run_defs example_defs bindP_def Let_def)
  have f1: "files s1 = files example_state" "dirs s1 = {}"
    unfolding s1_def by (simp_all add: run_defs example_defs bindP_def Let_def)
  have "fst (write_info (example_run_world 1) example_args (s_path_out c) (s_filename c) s1) =
      Inr ()"
    by (simp add: c write_info_def bindP_def makedirs_def write_file_def f1 dom_def
        example_state_def)
  then have 2: "write_info (example_run_world 1) example_args (s_path_out c) (s_filename c) s1 =
      (Inr (), s2)"
    unfolding s2_def by (simp add: prod_eq_iff)
  have "\<not> sum.isl (native_arguments example_args (s_path_out c) (s_tractogram c)
      (s_geometry c) (s_shifts c) (s_blur c) (s_htable c) (s_ArrayInvM c) (s_mask c) (s_peaks c)
      (s_tdi c))"
    by (simp add: c native_arguments_def c_int_def flip_sign_def item_def example_args_def)
  then have 3: "native_arguments example_args (s_path_out c) (s_tractogram c)
      (s_geometry c) (s_shifts c) (s_blur c) (s_htable c) (s_ArrayInvM c) (s_mask c) (s_peaks c)
      (s_tdi c) = Inr args"
    unfolding args_def by (simp add: sum.collapse(2))
  obtain tdi fs ds where 4:
    "trk2dictionary (example_run_world 1) args (files s2, dirs s2) = (1, tdi, fs, ds)"
    by (simp add: example_run_world_def example_kernel_def)
  have 5: "(1 :: int) \<noteq> 0"
    by simp
  have 6: "gen_trk example_args"
    by (simp add: example_args_def)
  have 7: "run (example_run_world 1) example_args example_state = (Inr (), s')"
    using example_run_ok unfolding s'_def by (simp add: prod_eq_iff)
  from C8_filtered_tractogram [OF 1 2 3 4 5 6 7] 1 2 3 4 5 6 7 show ?thesis
    by blast
qed

lemma agree_bindP [agree_intros]:
  assumes "agree p q" "\<And>x. agree (f x) (g x)"
  shows "agree (bindP p f) (bindP q g)"
  unfolding agree_def
proof (intro allI impI)
  fix s s'
  assume ss: "same_files s s'"
  obtain r t where ps: "p s = (r, t)" by (cases "p s")
  obtain r' t' where qs: "q s' = (r', t')" by (cases "q s'")
  from assms(1) ss ps qs have 1: "r' = r" "same_files t t'"
    unfolding agree_def by fastforce+
  show "fst (bindP p f s) = fst (bindP q g s') \<and>
      same_files (snd (bindP p f s)) (snd (bindP q g s'))"
  proof (cases r)
    case (Inl e)
    with 1 show ?thesis by (simp add: bindP_def ps qs)
  next
    case (Inr x)
    from assms(2) [of x] 1(2)
    have "fst (f x t) = fst (g x t') \<and> same_files (snd (f x t)) (snd (g x t'))"
      unfolding agree_def by blast
    with Inr 1 show ?thesis by (simp add: bindP_def ps qs)
  qed
qed

lemma agree_returnP [agree_intros]: "agree (returnP x) (returnP x)"
  by (simp add: agree_def)

lemma agree_raiseP [agree_intros]: "agree (raiseP e) (raiseP e)"
  by (simp add: agree_def)

lemma agree_liftP [agree_intros]: "agree (liftP r) (liftP r)"
  by (simp add: agree_def)

lemma agree_emit [agree_intros]: "agree (emit e) (emit e')"
  by (simp add: agree_def same_files_def)

lemma agree_exists_path [agree_intros]: "agree (exists_path p) (exists_path p)"
  by (simp add: agree_def same_files_def)

lemma agree_read_file [agree_intros]: "agree (read_file p) (read_file p)"
  by (simp add: agree_def same_files_def read_file_def bindP_def split: option.splits)

lemma agree_write_file [agree_intros]: "agree (write_file d p b) (write_file d p b)"
  by (simp add: agree_def same_files_def write_file_def bindP_def)

lemma agree_makedirs [agree_intros]: "agree (makedirs p) (makedirs p)"
  by (simp add: agree_def same_files_def makedirs_def bindP_def)

lemma agree_if [agree_intros]:
  "(c \<Longrightarrow> agree p p') \<Longrightarrow> (\<not> c \<Longrightarrow> agree q q') \<Longrightarrow>
     agree (if c then p else q) (if c then p' else q')"
  by simp

lemma agree_case_prod [agree_intros]:
  "(\<And>x y. agree (f x y) (g x y)) \<Longrightarrow> agree (case_prod f p) (case_prod g p)"
  by (cases p) simp

lemma agree_case_option [agree_intros]:
  "(v = None \<Longrightarrow> agree p q) \<Longrightarrow> (\<And>x. v = Some x \<Longrightarrow> agree (f x) (g x)) \<Longrightarrow>
     agree (case v of None \<Rightarrow> p | Some x \<Rightarrow> f x) (case v of None \<Rightarrow> q | Some x \<Rightarrow> g x)"
  by (cases v) simp_all

lemma agree_load_image [agree_intros]: "agree (load_image w p) (load_image w p)"
  unfolding load_image_def by (intro agree_intros)

lemma agree_load_hash_table [agree_intros]:
  "agree (load_hash_table w n) (load_hash_table w n)"
  unfolding load_hash_table_def by (intro agree_intros)

lemma agree_load_header [agree_intros]: "agree (load_header w fn) (load_header w fn)"
  by (simp add: agree_def same_files_def load_header_def bindP_def split: option.splits)

lemma agree_geometry_warning [agree_intros]:
  "agree (geometry_warning c) (geometry_warning c)"
  unfolding geometry_warning_def by (intro agree_intros)

lemma agree_read_geometry [agree_intros]:
  "agree (read_geometry w a ext h) (read_geometry w a ext h)"
  unfolding read_geometry_def by (intro agree_intros)

lemma agree_load_mask [agree_intros]: "agree (load_mask w a g) (load_mask w a g)"
  unfolding load_mask_def by (intro agree_intros)

lemma agree_load_peaks [agree_intros]: "agree (load_peaks w a g) (load_peaks w a g)"
  unfolding load_peaks_def by (intro agree_intros)

lemma agree_write_info [agree_intros]:
  "agree (write_info w a po fn) (write_info w a po fn)"
  unfolding write_info_def by (intro agree_intros)

lemma agree_call_native [agree_intros]: "agree (call_native w args) (call_native w args)"
  by (simp add: agree_def same_files_def call_native_def bindP_def split: prod.splits)

lemma agree_generate_trk [agree_intros]:
  "agree (generate_trk w po fn ext) (generate_trk w po fn ext)"
  unfolding generate_trk_def by (intro agree_intros)

lemma agree_save_maps [agree_intros]:
  "agree (save_maps w po g mk pk tdi) (save_maps w po g mk pk tdi)"
  unfolding save_maps_def Let_def by (intro agree_intros)

lemma agree_run_convert [agree_intros]: "agree (run_convert w a c) (run_convert w a c)"
  unfolding run_convert_def by (intro agree_intros)

lemma tractogram_name_both:
  assumes "path_out a \<noteq> None"
  shows "tractogram_name (a\<lparr>filename_tractogram := Some t, filename_trk := Some k\<rparr>) s =
     (Inr t, s\<lparr>trace := trace s @
        [Print ''[WARNING] filename_tractogram will be used, filename_trk will not be considered'']\<rparr>)"
  using assms by (simp add: tractogram_name_def bindP_def)

lemma tractogram_name_trk:
  assumes "path_out a \<noteq> None"
  shows "tractogram_name (a\<lparr>filename_tractogram := None, filename_trk := Some k\<rparr>) s =
     (Inr k, s\<lparr>trace := trace s @
        [Print ''[WARNING] filename_trk parameter is deprecated, in the future use filename_tractogram'']\<rparr>)"
  using assms by (simp add: tractogram_name_def bindP_def)

lemma tractogram_name_only:
  assumes "path_out a \<noteq> None"
  shows "tractogram_name (a\<lparr>filename_tractogram := Some t, filename_trk := None\<rparr>) s = (Inr t, s)"
  using assms by (simp add: tractogram_name_def)

lemma agree_tractogram_name:
  assumes "path_out a = path_out a'"
    and "\<And>s. fst (tractogram_name a s) = r" "\<And>s. fst (tractogram_name a' s) = r"
  shows "agree (tractogram_name a) (tractogram_name a')"
  using assms(2,3)
  by (auto simp: agree_def same_files_def tractogram_name_def bindP_def
      split: option.splits if_splits)

lemma check_parameters_names [simp]:
  "check_parameters (a\<lparr>filename_tractogram := x, filename_trk := y\<rparr>) = check_parameters a"
  by (simp add: check_parameters_def)

lemma tck_reference_names [simp]:
  "tck_reference (a\<lparr>filename_tractogram := x, filename_trk := y\<rparr>) = tck_reference a"
  by (simp add: tck_reference_def cong: option.case_cong)

lemma read_geometry_names [simp]:
  "read_geometry w (a\<lparr>filename_tractogram := x, filename_trk := y\<rparr>) = read_geometry w a"
  by (intro ext) (simp only: read_geometry_def tck_reference_names)

lemma load_mask_names [simp]:
  "load_mask w (a\<lparr>filename_tractogram := x, filename_trk := y\<rparr>) = load_mask w a"
  by (intro ext) (simp add: load_mask_def cong: option.case_cong)

lemma load_peaks_names [simp]:
  "load_peaks w (a\<lparr>filename_tractogram := x, filename_trk := y\<rparr>) = load_peaks w a"
  by (intro ext) (simp add: load_peaks_def cong: option.case_cong if_cong)

lemma run_convert_tractogram:
  "run_convert w (a\<lparr>filename_tractogram := x, filename_trk := y\<rparr>) =
     run_convert w (a\<lparr>filename_trk := y\<rparr>)"
  by (intro ext) (simp add: run_convert_def write_info_def dictionary_info_def
      native_arguments_def)

lemma agree_run_setup:
  assumes "\<And>s. path_out a \<noteq> None \<Longrightarrow>
      fst (tractogram_name (a\<lparr>filename_tractogram := x, filename_trk := y\<rparr>) s) = r"
    and "\<And>s. path_out a \<noteq> None \<Longrightarrow>
      fst (tractogram_name (a\<lparr>filename_tractogram := x', filename_trk := y'\<rparr>) s) = r"
  shows "agree (run_setup w (a\<lparr>filename_tractogram := x, filename_trk := y\<rparr>))
     (run_setup w (a\<lparr>filename_tractogram := x', filename_trk := y'\<rparr>))"
proof (cases "path_out a")
  case None
  then show ?thesis
    by (simp add: run_setup_def agree_raiseP)
next
  case (Some po)
  have "agree (tractogram_name (a\<lparr>filename_tractogram := x, filename_trk := y\<rparr>))
      (tractogram_name (a\<lparr>filename_tractogram := x', filename_trk := y'\<rparr>))"
    using assms Some by (intro agree_tractogram_name [where r = r]) simp_all
  then show ?thesis
    unfolding run_setup_def load_tractogram_def
    by (simp add: Some) (intro agree_intros)
qed

lemma agreeD:
  "agree p q \<Longrightarrow> fst (p s) = fst (q s) \<and> same_files (snd (p s)) (snd (q s))"
  by (simp add: agree_def same_files_def)

lemma run_setup_tractogram:
  assumes "run_setup w a s = (Inr c, s1)"
  shows "\<exists>s0. fst (tractogram_name a s0) = Inr (s_tractogram c)"
  using assms
  apply (cases "path_out a")
   apply (simp add: run_setup_def)
  apply (simp add: run_setup_def load_tractogram_def)
  apply (elim bindP_InrD [THEN exE] | clarsimp split: prod.splits sum.splits)+
  apply (metis fst_conv)
  done

text \<open>
  Claim C10 (lines 208-216). With an output path given: when both \<^verbatim>\<open>filename_tractogram\<close>
  and the deprecated \<^verbatim>\<open>filename_trk\<close> are supplied, the name stage does not raise, warns
  that \<^verbatim>\<open>filename_trk\<close> is not considered and yields \<^verbatim>\<open>filename_tractogram\<close>; the
  first part of \<^verbatim>\<open>run\<close> then has the result and the file system it has with
  \<^verbatim>\<open>filename_tractogram\<close> alone, and the tractogram it hands to the conversion is
  \<^verbatim>\<open>filename_tractogram\<close>. When only \<^verbatim>\<open>filename_trk\<close> is supplied, the name stage
  warns of the deprecation and yields \<^verbatim>\<open>filename_trk\<close>; the first part of \<^verbatim>\<open>run\<close> has
  the result it has when that path is passed as \<^verbatim>\<open>filename_tractogram\<close>, and the whole
  run has the result and the final file system of the run that is given the same path in
  both parameters: it succeeds exactly when that run does.
\<close>

theorem C10_tractogram_parameters:
  assumes po: "path_out a \<noteq> None"
  shows "tractogram_name (a\<lparr>filename_tractogram := Some t, filename_trk := Some k\<rparr>) s =
       (Inr t, s\<lparr>trace := trace s @
          [Print ''[WARNING] filename_tractogram will be used, filename_trk will not be considered'']\<rparr>) \<and>
     fst (run_setup w (a\<lparr>filename_tractogram := Some t, filename_trk := Some k\<rparr>) s) =
       fst (run_setup w (a\<lparr>filename_tractogram := Some t, filename_trk := None\<rparr>) s) \<and>
     same_files (snd (run_setup w (a\<lparr>filename_tractogram := Some t, filename_trk := Some k\<rparr>) s))
       (snd (run_setup w (a\<lparr>filename_tractogram := Some t, filename_trk := None\<rparr>) s)) \<and>
     (\<forall>c s1. run_setup w (a\<lparr>filename_tractogram := Some t, filename_trk := Some k\<rparr>) s = (Inr c, s1)
        \<longrightarrow> s_tractogram c = t) \<and>
     tractogram_name (a\<lparr>filename_tractogram := None, filename_trk := Some k\<rparr>) s =
       (Inr k, s\<lparr>trace := trace s @
          [Print ''[WARNING] filename_trk parameter is deprecated, in the future use filename_tractogram'']\<rparr>) \<and>
     fst (run_setup w (a\<lparr>filename_tractogram := None, filename_trk := Some k\<rparr>) s) =
       fst (run_setup w (a\<lparr>filename_tractogram := Some k, filename_trk := None\<rparr>) s) \<and>
     (\<forall>c s1. run_setup w (a\<lparr>filename_tractogram := None, filename_trk := Some k\<rparr>) s = (Inr c, s1)
        \<longrightarrow> s_tractogram c = k) \<and>
     fst (run w (a\<lparr>filename_tractogram := None, filename_trk := Some k\<rparr>) s) =
       fst (run w (a\<lparr>filename_tractogram := Some k, filename_trk := Some k\<rparr>) s) \<and>
     same_files (snd (run w (a\<lparr>filename_tractogram := None, filename_trk := Some k\<rparr>) s))
       (snd (run w (a\<lparr>filename_tractogram := Some k, filename_trk := Some k\<rparr>) s))"
proof -
  note n1 = tractogram_name_both [OF po, where t = t and k = k]
    and n2 = tractogram_name_trk [OF po, where k = k]
    and n3 = tractogram_name_only [OF po]
    and n4 = tractogram_name_both [OF po, where t = k and k = k]
  have "agree (run_setup w (a\<lparr>filename_tractogram := Some t, filename_trk := Some k\<rparr>))
      (run_setup w (a\<lparr>filename_tractogram := Some t, filename_trk := None\<rparr>))"
    by (rule agree_run_setup [where r = "Inr t"]) (simp_all only: n1 n3 fst_conv)
  note 1 = agreeD [OF this, of s]
  have "agree (run_setup w (a\<lparr>filename_tractogram := None, filename_trk := Some k\<rparr>))
      (run_setup w (a\<lparr>filename_tractogram := Some k, filename_trk := None\<rparr>))"
    by (rule agree_run_setup [where r = "Inr k"]) (simp_all only: n2 n3 fst_conv)
  note 2 = agreeD [OF this, of s]
  have "agree (run_setup w (a\<lparr>filename_tractogram := None, filename_trk := Some k\<rparr>))
      (run_setup w (a\<lparr>filename_tractogram := Some k, filename_trk := Some k\<rparr>))"
    by (rule agree_run_setup [where r = "Inr k"]) (simp_all only: n2 n4 fst_conv)
  then have "agree (run w (a\<lparr>filename_tractogram := None, filename_trk := Some k\<rparr>))
      (run w (a\<lparr>filename_tractogram := Some k, filename_trk := Some k\<rparr>))"
    unfolding run_def run_convert_tractogram by (intro agree_intros)
  note 3 = agreeD [OF this, of s]
  have 4: "s_tractogram c = t"
    if "run_setup w (a\<lparr>filename_tractogram := Some t, filename_trk := Some k\<rparr>) s = (Inr c, s1)"
    for c s1
    using run_setup_tractogram [OF that] by (simp only: n1 fst_conv sum.inject) blast
  have 5: "s_tractogram c = k"
    if "run_setup w (a\<lparr>filename_tractogram := None, filename_trk := Some k\<rparr>) s = (Inr c, s1)"
    for c s1
    using run_setup_tractogram [OF that] by (simp only: n2 fst_conv sum.inject) blast
  from n1 n2 1 2 3 4 5 show ?thesis
    by (intro conjI allI impI) blast+
qed

theorem C10_tractogram_parameters_witness:
  "path_out example_args \<noteq> None \<and>
   fst (run_setup (example_run_world 1)
         (example_args\<lparr>filename_tractogram := Some ''a.trk'', filename_trk := Some ''b.trk''\<rparr>)
         example_state) =
     fst (run_setup (example_run_world 1) example_args example_state) \<and>
   fst (run (example_run_world 1)
         (example_args\<lparr>filename_tractogram := None, filename_trk := Some ''a.trk''\<rparr>)
         example_state) = Inr ()"
proof -
  have po: "path_out example_args \<noteq> None"
    by (simp add: example_args_def)
  have a: "example_args\<lparr>filename_tractogram := Some ''a.trk'', filename_trk := None\<rparr> =
      example_args"
    by (simp add: example_args_def)
  have r: "fst (run (example_run_world 1)
      (example_args\<lparr>filename_tractogram := Some ''a.trk'', filename_trk := Some ''a.trk''\<rparr>)
      example_state) = Inr ()"
    by (simp add: run_defs example_defs bindP_def Let_def dom_def)
  from C10_tractogram_parameters [OF po, where t = "''a.trk''" and k = "''b.trk''"
      and s = example_state and w = "example_run_world 1"]
    C10_tractogram_parameters [OF po, where t = "''a.trk''" and k = "''a.trk''"
      and s = example_state and w = "example_run_world 1"]
  show ?thesis
    by (simp only: po a r simp_thms)
qed

end
